theory Spec2Isabelle
  imports Complex_Main
begin

section \<open>Points and vectors (js/geometry-engine.js)\<close>

text \<open>
  JavaScript numbers are modelled as real numbers: arithmetic is exact, there is no
  rounding and no overflow. A \<^verbatim>\<open>Point\<close> is an object with the two fields
  \<^verbatim>\<open>x\<close> and \<^verbatim>\<open>y\<close>; the fields are named \<open>px\<close> and \<open>py\<close> here. The
  record is polymorphic in the type of its coordinates, because one solver is run
  on numbers that can be NaN or infinite (see the section on the square solver).
\<close>

record 'a point =
  px :: 'a
  py :: 'a

type_synonym rpoint = "real point"

text \<open>
  Reading a property of \<^verbatim>\<open>undefined\<close> throws a TypeError. \<open>NotANumber\<close> is not an
  exception of the source: it marks the one place where the source goes on with
  the number NaN and the real-valued model cannot follow (see \<open>Circle_fromJSON\<close>).
\<close>

datatype error = TypeError | NotANumber

definition Point :: "real \<Rightarrow> real \<Rightarrow> rpoint" where
  "Point a b = \<lparr>px = a, py = b\<rparr>"

text \<open>\<^verbatim>\<open>Point.distanceTo\<close>\<close>

definition distanceTo :: "rpoint \<Rightarrow> rpoint \<Rightarrow> real" where
  "distanceTo this other =
     (let dx = px other - px this;
          dy = py other - py this
      in sqrt (dx * dx + dy * dy))"

text \<open>\<^verbatim>\<open>Point.midpoint\<close>\<close>

definition midpoint :: "rpoint \<Rightarrow> rpoint \<Rightarrow> rpoint" where
  "midpoint p1 p2 = Point ((px p1 + px p2) / 2) ((py p1 + py p2) / 2)"

record vector =
  vx :: real
  vy :: real

definition Vector :: "real \<Rightarrow> real \<Rightarrow> vector" where
  "Vector a b = \<lparr>vx = a, vy = b\<rparr>"

text \<open>\<^verbatim>\<open>Vector.fromPoints\<close>\<close>

definition fromPoints :: "rpoint \<Rightarrow> rpoint \<Rightarrow> vector" where
  "fromPoints p1 p2 = Vector (px p2 - px p1) (py p2 - py p1)"

text \<open>The getter \<^verbatim>\<open>Vector.length\<close>\<close>

definition vlength :: "vector \<Rightarrow> real" where
  "vlength v = sqrt (vx v * vx v + vy v * vy v)"

text \<open>
  \<^verbatim>\<open>Vector.normalize\<close>: the zero vector is returned as it is. (The names
  \<open>normalize\<close> and \<open>rotate\<close> belong to the library, hence \<open>normalize_vector\<close> here and
  \<open>rotate_points\<close> below.)
\<close>

definition normalize_vector :: "vector \<Rightarrow> vector" where
  "normalize_vector v =
     (let len = vlength v
      in if len = 0 then Vector 0 0 else Vector (vx v / len) (vy v / len))"

section \<open>Polygon utilities (GeometryUtils)\<close>

text \<open>
  \<^verbatim>\<open>GeometryUtils.polygonArea\<close>: the loop over \<open>i = 0, ..., n - 1\<close> adds
  \<open>points[i].x * points[j].y\<close> and then subtracts \<open>points[j].x * points[i].y\<close>, with
  \<open>j = (i + 1) % n\<close>; the result is \<open>Math.abs(area / 2)\<close>.
\<close>

definition polygonArea :: "rpoint list \<Rightarrow> real" where
  "polygonArea points =
     (let n = length points;
          area = fold (\<lambda>i area.
                   (let j = (i + 1) mod n
                    in area + px (points ! i) * py (points ! j)
                            - px (points ! j) * py (points ! i)))
                 [0..<n] 0
      in \<bar>area / 2\<bar>)"

text \<open>\<^verbatim>\<open>GeometryUtils.polygonPerimeter\<close>\<close>

definition polygonPerimeter :: "rpoint list \<Rightarrow> real" where
  "polygonPerimeter points =
     (let n = length points
      in fold (\<lambda>i perimeter.
                 (let j = (i + 1) mod n
                  in perimeter + distanceTo (points ! i) (points ! j)))
              [0..<n] 0)"

text \<open>
  \<^verbatim>\<open>GeometryUtils.regularPolygonPoints(center, radius, sides, startAngle)\<close>; the
  default start angle is \<open>-\<pi>/2\<close>.
\<close>

definition regularPolygonPoints :: "rpoint \<Rightarrow> real \<Rightarrow> nat \<Rightarrow> real \<Rightarrow> rpoint list" where
  "regularPolygonPoints center radius sides startAngle =
     map (\<lambda>i. (let angle = startAngle + (2 * pi * real i) / real sides
                in Point (px center + radius * cos angle)
                         (py center + radius * sin angle)))
         [0..<sides]"

section \<open>Transformations of a shape (class Shape)\<close>

text \<open>
  \<^verbatim>\<open>Shape.getCenter\<close>: the mean of the vertices, and \<open>(0, 0)\<close> for a shape
  with no vertex.
\<close>

definition getCenter :: "rpoint list \<Rightarrow> rpoint" where
  "getCenter points =
     (if length points = 0 then Point 0 0
      else (let sumX = fold (\<lambda>p sumX. sumX + px p) points 0;
                sumY = fold (\<lambda>p sumY. sumY + py p) points 0;
                n = real (length points)
            in Point (sumX / n) (sumY / n)))"

text \<open>
  \<^verbatim>\<open>Shape.rotate(angle, center = null)\<close>: \<open>c = center || this.getCenter()\<close>, then
  every vertex is rewritten in place from its own old coordinates. \<open>None\<close> is the
  \<^verbatim>\<open>null\<close> default. The loop leaves \<open>c\<close> as it is, also when \<open>c\<close> is one of the
  vertices (a circle's center is its vertex 0): the center is mapped to itself.
  The same holds for \<^verbatim>\<open>scale\<close>.
\<close>

definition rotate_points :: "real \<Rightarrow> rpoint option \<Rightarrow> rpoint list \<Rightarrow> rpoint list" where
  "rotate_points angle center points =
     (let c = (case center of Some c' \<Rightarrow> c' | None \<Rightarrow> getCenter points);
          cos' = cos angle;
          sin' = sin angle
      in map (\<lambda>p. (let dx = px p - px c;
                       dy = py p - py c
                   in Point (px c + dx * cos' - dy * sin') (py c + dx * sin' + dy * cos')))
             points)"

text \<open>\<^verbatim>\<open>Shape.translate(dx, dy)\<close>\<close>

definition translate :: "real \<Rightarrow> real \<Rightarrow> rpoint list \<Rightarrow> rpoint list" where
  "translate dx dy points = map (\<lambda>p. Point (px p + dx) (py p + dy)) points"

text \<open>\<^verbatim>\<open>Shape.scale(factor, center = null)\<close>\<close>

definition scale :: "real \<Rightarrow> rpoint option \<Rightarrow> rpoint list \<Rightarrow> rpoint list" where
  "scale factor center points =
     (let c = (case center of Some c' \<Rightarrow> c' | None \<Rightarrow> getCenter points)
      in map (\<lambda>p. Point (px c + (px p - px c) * factor) (py c + (py p - py c) * factor))
             points)"

section \<open>Quadrilateral constraint solvers (shapes-2d.js)\<close>

text \<open>
  The module \<^verbatim>\<open>shapes-2d.js\<close> is the file \<^verbatim>\<open>src/Makefile\<close> of the sources at hand.
  A solver is called after \<open>points[idx]\<close> was set to the dragged position and
  mutates the vertex objects in place. The model takes the vertex array and returns
  the array after the call. The vertices of one shape are distinct objects (every
  constructor path of the repository builds them so), hence writing one vertex
  changes one entry of the list. Reading a coordinate of an entry that is not
  there is the TypeError of the source.
\<close>

text \<open>\<^verbatim>\<open>Quadrilateral._applyParallelogramConstraint\<close>\<close>

definition applyParallelogramConstraint :: "nat \<Rightarrow> rpoint list \<Rightarrow> error + rpoint list" where
  "applyParallelogramConstraint idx points =
     (let opposite = (idx + 2) mod 4;
          prev = (idx + 3) mod 4;
          next = (idx + 1) mod 4
      in if idx < length points \<and> opposite < length points
            \<and> prev < length points \<and> next < length points
         then (let center = midpoint (points ! idx) (points ! opposite)
               in Inr (points[prev := Point (2 * px center - px (points ! next))
                                          (2 * py center - py (points ! next))]))
         else Inl TypeError)"

text \<open>
  \<^verbatim>\<open>Quadrilateral._applyTrapezoidConstraint\<close>: only a drag of vertex 2 or 3 is
  answered, and only when the edge from vertex 3 to vertex 2 has a positive length.
  \<open>abLen\<close> and \<open>abMid\<close> are computed before the first write.
\<close>

definition applyTrapezoidConstraint :: "nat \<Rightarrow> rpoint list \<Rightarrow> error + rpoint list" where
  "applyTrapezoidConstraint idx points =
     (if idx \<ge> 2 then
        (if 4 \<le> length points then
           (let dcVector = Vector (px (points ! 2) - px (points ! 3))
                                  (py (points ! 2) - py (points ! 3));
                dcLen = sqrt (vx dcVector * vx dcVector + vy dcVector * vy dcVector)
            in if dcLen > 0 then
                 (let abLen = distanceTo (points ! 0) (points ! 1);
                      unitDC = Vector (vx dcVector / dcLen) (vy dcVector / dcLen);
                      abMid = midpoint (points ! 0) (points ! 1)
                  in Inr (points[0 := Point (px abMid - vx unitDC * abLen / 2)
                                            (py abMid - vy unitDC * abLen / 2),
                                 1 := Point (px abMid + vx unitDC * abLen / 2)
                                            (py abMid + vy unitDC * abLen / 2)]))
               else Inr points)
         else Inl TypeError)
      else Inr points)"

section \<open>Triangle (shapes-2d.js)\<close>

text \<open>
  \<^verbatim>\<open>Math.atan2(y, x)\<close> is a function of the host, not of the repository. It is
  modelled by its mathematical definition: the angle in \<open>(-\<pi>, \<pi>]\<close> of the point
  \<open>(x, y)\<close>, and \<open>0\<close> at the origin. The sign of a zero is not modelled.
\<close>

definition atan2 :: "real \<Rightarrow> real \<Rightarrow> real" where
  "atan2 y' x' =
     (if x' > 0 then arctan (y' / x')
      else if x' < 0 then (if y' \<ge> 0 then arctan (y' / x') + pi else arctan (y' / x') - pi)
      else if y' > 0 then pi / 2
      else if y' < 0 then - (pi / 2)
      else 0)"

text \<open>
  The vertices the \<^verbatim>\<open>Triangle\<close> constructor builds when it is given none: a regular
  triangle on the circle of radius 100 around \<open>(250, 200)\<close>, with the default start
  angle of \<^verbatim>\<open>regularPolygonPoints\<close>.
\<close>

definition Triangle_default_points :: "rpoint list" where
  "Triangle_default_points = regularPolygonPoints (Point 250 200) 100 3 (- (pi / 2))"

text \<open>
  A \<^verbatim>\<open>Triangle\<close> holds exactly three vertices (its constructor sees to it). With a
  dragged index outside \<open>0..2\<close> the entry \<open>points[idx]\<close> is \<^verbatim>\<open>undefined\<close> and the
  first read of its coordinates throws; the solvers below answer \<open>TypeError\<close> in
  that case, and on an array that is not a triangle's.
\<close>

text \<open>
  \<^verbatim>\<open>Triangle._applyEquilateralConstraint\<close>. The offset of vertex \<open>i\<close> is
  \<open>((i - idx + 3) % 3) * (2\<pi>/3)\<close>; with \<open>idx \<le> 2\<close> the natural number
  \<open>i + 3 - idx\<close> is the source's \<open>i - idx + 3\<close>.
\<close>

definition applyEquilateralConstraint :: "nat \<Rightarrow> rpoint list \<Rightarrow> error + rpoint list" where
  "applyEquilateralConstraint idx points =
     (if length points = 3 \<and> idx < 3 then
        (let draggedPoint = points ! idx;
             other1 = (idx + 1) mod 3;
             other2 = (idx + 2) mod 3;
             oppositeMid = midpoint (points ! other1) (points ! other2);
             heightDist = distanceTo draggedPoint oppositeMid
         in if heightDist < 20 then Inr points
            else
              (let centerX = px draggedPoint + (px oppositeMid - px draggedPoint) * (2 / 3);
                   centerY = py draggedPoint + (py oppositeMid - py draggedPoint) * (2 / 3);
                   center = Point centerX centerY;
                   radius = distanceTo draggedPoint center;
                   draggedAngle = atan2 (py draggedPoint - py center)
                                        (px draggedPoint - px center)
               in Inr (fold (\<lambda>i pts.
                         (let angleOffset = real ((i + 3 - idx) mod 3) * (2 * pi / 3);
                              angle = draggedAngle + angleOffset
                          in pts[i := Point (px center + radius * cos angle)
                                            (py center + radius * sin angle)]))
                       [0..<3] points)))
      else Inl TypeError)"

text \<open>
  \<^verbatim>\<open>Triangle._applyIsoscelesConstraint\<close>. In the branch of the apex the loop runs
  over \<open>i = 1, 2\<close>; it reads \<open>points[0]\<close>, which it never writes, and \<open>points[i]\<close>.
\<close>

definition applyIsoscelesConstraint :: "nat \<Rightarrow> rpoint list \<Rightarrow> error + rpoint list" where
  "applyIsoscelesConstraint idx points =
     (if length points = 3 \<and> idx < 3 then
        (if idx = 0 then
           (let midBase = midpoint (points ! 1) (points ! 2);
                axisDir = fromPoints midBase (points ! 0);
                axisLen = vlength axisDir
            in if axisLen < 10 then Inr points
               else
                 (let distAB = distanceTo (points ! 0) (points ! 1);
                      distAC = distanceTo (points ! 0) (points ! 2);
                      avgDist = (distAB + distAC) / 2
                  in Inr (fold (\<lambda>i pts.
                            (let dir = normalize_vector (fromPoints (pts ! 0) (pts ! i))
                             in if vlength dir > 0
                                then pts[i := Point (px (pts ! 0) + vx dir * avgDist)
                                                    (py (pts ! 0) + vy dir * avgDist)]
                                else pts))
                          [1..<3] points)))
         else
           (let other = (if idx = 1 then 2 else 1);
                apex = points ! 0;
                draggedPoint = points ! idx;
                currentMid = midpoint (points ! 1) (points ! 2);
                axisDir0 = fromPoints apex currentMid;
                axisDir = (if vlength axisDir0 < 1
                           then (let dragDir = fromPoints apex draggedPoint
                                 in Vector (- vy dragDir) (vx dragDir))
                           else axisDir0);
                axisLen = vlength axisDir
            in if axisLen < 0.001 then Inr points
               else
                 (let axisUnit = normalize_vector axisDir;
                      toPoint = fromPoints apex draggedPoint;
                      projLength = vx toPoint * vx axisUnit + vy toPoint * vy axisUnit;
                      perpLength = vx toPoint * (- vy axisUnit) + vy toPoint * vx axisUnit
                  in Inr (points[other :=
                            Point (px apex + projLength * vx axisUnit - perpLength * (- vy axisUnit))
                                  (py apex + projLength * vy axisUnit - perpLength * vx axisUnit)]))))
      else Inl TypeError)"

text \<open>
  \<^verbatim>\<open>Triangle._applyRightConstraint\<close>: only a drag of vertex 0 is answered, and it
  reads the vertices 0, 1 and 2. For any other index nothing is read.
\<close>

definition applyRightConstraint :: "nat \<Rightarrow> rpoint list \<Rightarrow> error + rpoint list" where
  "applyRightConstraint idx points =
     (if idx = 0 then
        (if 3 \<le> length points then
           (let v1 = fromPoints (points ! 0) (points ! 1);
                v2 = fromPoints (points ! 0) (points ! 2);
                perpendicular = Vector (- vy v1) (vx v1);
                len2 = vlength v2;
                norm' = normalize_vector perpendicular
            in Inr (points[2 := Point (px (points ! 0) + vx norm' * len2)
                                      (py (points ! 0) + vy norm' * len2)]))
         else Inl TypeError)
      else Inr points)"

text \<open>
  \<^verbatim>\<open>Triangle.applyConstraints(draggedIndex)\<close>: nothing happens for the type
  \<^verbatim>\<open>'any'\<close>, and the \<^verbatim>\<open>switch\<close> has no default case.
\<close>

definition Triangle_applyConstraints :: "string \<Rightarrow> nat \<Rightarrow> rpoint list \<Rightarrow> error + rpoint list" where
  "Triangle_applyConstraints triangleType draggedIndex points =
     (if triangleType = ''any'' then Inr points
      else if triangleType = ''equilateral'' then applyEquilateralConstraint draggedIndex points
      else if triangleType = ''isosceles'' then applyIsoscelesConstraint draggedIndex points
      else if triangleType = ''right'' then applyRightConstraint draggedIndex points
      else Inr points)"

text \<open>\<^verbatim>\<open>Triangle.getSides\<close>\<close>

definition getSides :: "rpoint list \<Rightarrow> real list" where
  "getSides points = map (\<lambda>i. distanceTo (points ! i) (points ! ((i + 1) mod 3))) [0..<3]"

section \<open>JavaScript numbers with NaN and infinities\<close>

text \<open>
  Where the code divides by a length it has not compared with zero, or computes
  with a value it has not checked, the model needs the special values of a
  JavaScript number. A \<open>jsnum\<close> is a real number, \<open>+Infinity\<close>, \<open>-Infinity\<close> or
  \<open>NaN\<close>; the operations
  follow IEEE 754 on these values and are exact on the finite ones (no rounding,
  no overflow). The sign of a zero is not modelled: a zero divisor counts as
  \<open>+0\<close>.
\<close>

datatype jsnum = Fin real | PosInf | NegInf | NaN

fun jneg :: "jsnum \<Rightarrow> jsnum" where
  "jneg (Fin a) = Fin (- a)"
| "jneg PosInf = NegInf"
| "jneg NegInf = PosInf"
| "jneg NaN = NaN"

fun jadd :: "jsnum \<Rightarrow> jsnum \<Rightarrow> jsnum" where
  "jadd (Fin a) (Fin b) = Fin (a + b)"
| "jadd NaN _ = NaN"
| "jadd _ NaN = NaN"
| "jadd PosInf NegInf = NaN"
| "jadd NegInf PosInf = NaN"
| "jadd PosInf _ = PosInf"
| "jadd _ PosInf = PosInf"
| "jadd NegInf _ = NegInf"
| "jadd _ NegInf = NegInf"

definition jsub :: "jsnum \<Rightarrow> jsnum \<Rightarrow> jsnum" where
  "jsub a b = jadd a (jneg b)"

text \<open>The sign of a number that is not NaN: \<open>-1\<close>, \<open>0\<close> or \<open>1\<close>.\<close>

fun jsign :: "jsnum \<Rightarrow> int" where
  "jsign (Fin a) = (if a < 0 then - 1 else if a = 0 then 0 else 1)"
| "jsign PosInf = 1"
| "jsign NegInf = - 1"
| "jsign NaN = 0"

definition signedInf :: "int \<Rightarrow> jsnum" where
  "signedInf s = (if s < 0 then NegInf else PosInf)"

fun jmul :: "jsnum \<Rightarrow> jsnum \<Rightarrow> jsnum" where
  "jmul (Fin a) (Fin b) = Fin (a * b)"
| "jmul NaN _ = NaN"
| "jmul _ NaN = NaN"
| "jmul a b = (if jsign a = 0 \<or> jsign b = 0 then NaN else signedInf (jsign a * jsign b))"

fun jdiv :: "jsnum \<Rightarrow> jsnum \<Rightarrow> jsnum" where
  "jdiv (Fin a) (Fin b) =
     (if b \<noteq> 0 then Fin (a / b)
      else if a = 0 then NaN
      else signedInf (jsign (Fin a)))"
| "jdiv NaN _ = NaN"
| "jdiv _ NaN = NaN"
| "jdiv (Fin a) _ = Fin 0"
| "jdiv a (Fin b) = signedInf (jsign a * (if b < 0 then - 1 else 1))"
| "jdiv _ _ = NaN"

fun jsqrt :: "jsnum \<Rightarrow> jsnum" where
  "jsqrt (Fin a) = (if a < 0 then NaN else Fin (sqrt a))"
| "jsqrt PosInf = PosInf"
| "jsqrt NegInf = NaN"
| "jsqrt NaN = NaN"

section \<open>The square solver on numbers with NaN and infinities\<close>

text \<open>
  \<^verbatim>\<open>Quadrilateral._applySquareConstraint\<close> divides by a length it has not compared
  with zero, so it is modelled on points with \<open>jsnum\<close> coordinates.
\<close>

text \<open>A point with finite coordinates, as a point of \<open>jsnum\<close> coordinates.\<close>

definition finite_point :: "rpoint \<Rightarrow> jsnum point" where
  "finite_point p = \<lparr>px = Fin (px p), py = Fin (py p)\<rparr>"

text \<open>\<^verbatim>\<open>Point.midpoint\<close> on these numbers.\<close>

definition jmidpoint :: "jsnum point \<Rightarrow> jsnum point \<Rightarrow> jsnum point" where
  "jmidpoint p1 p2 = \<lparr>px = jdiv (jadd (px p1) (px p2)) (Fin 2),
                      py = jdiv (jadd (py p1) (py p2)) (Fin 2)\<rparr>"

text \<open>
  \<^verbatim>\<open>Quadrilateral._applySquareConstraint\<close>. The six writes use \<open>center\<close>, \<open>ndx\<close>,
  \<open>ndy\<close> and \<open>dist\<close>, all computed before the first write.
\<close>

definition applySquareConstraint :: "nat \<Rightarrow> jsnum point list \<Rightarrow> error + jsnum point list" where
  "applySquareConstraint idx points =
     (let opposite = (idx + 2) mod 4;
          prev = (idx + 3) mod 4;
          next = (idx + 1) mod 4
      in if idx < length points \<and> opposite < length points
            \<and> prev < length points \<and> next < length points
         then
           (let center = jmidpoint (points ! idx) (points ! opposite);
                dx = jsub (px (points ! idx)) (px center);
                dy = jsub (py (points ! idx)) (py center);
                dist = jsqrt (jadd (jmul dx dx) (jmul dy dy));
                ndx = jdiv dx dist;
                ndy = jdiv dy dist
            in Inr (points[opposite := \<lparr>px = jsub (px center) (jmul ndx dist),
                                         py = jsub (py center) (jmul ndy dist)\<rparr>,
                           next := \<lparr>px = jsub (px center) (jmul ndy dist),
                                     py = jadd (py center) (jmul ndx dist)\<rparr>,
                           prev := \<lparr>px = jadd (px center) (jmul ndy dist),
                                     py = jsub (py center) (jmul ndx dist)\<rparr>]))
         else Inl TypeError)"

text \<open>
  The vertices \<^verbatim>\<open>_createDefaultPoints('square', 250, 200, 100)\<close> gives a square that
  is created without vertices.
\<close>

definition square_default_points :: "rpoint list" where
  "square_default_points =
     (let cx = 250; cy = 200; size' = 100
      in [Point (cx + size') (cy - size'), Point (cx + size') (cy + size'),
          Point (cx - size') (cy + size'), Point (cx - size') (cy - size')])"

section \<open>Auxiliary lines (js/auxiliary.js)\<close>

text \<open>
  An \<^verbatim>\<open>AuxiliaryLine\<close> holds its construction type, a reference to its shape and
  the object \<^verbatim>\<open>params\<close>. The constructor takes any object as \<^verbatim>\<open>params\<close> (\<open>{}\<close> when
  none is passed) and \<^verbatim>\<open>fromJSON\<close> passes on what the stored text holds; no key is
  checked. An index key holds a JavaScript number, or it is absent and reads as
  \<^verbatim>\<open>undefined\<close>: \<open>None\<close>. The two optional keys of an extension, \<^verbatim>\<open>direction\<close> and
  \<^verbatim>\<open>extendLength\<close>, have the defaults of the destructuring pattern.
\<close>

type_synonym jsindex = "jsnum option"

record params =
  vertexIndex1 :: jsindex
  vertexIndex2 :: jsindex
  vertexIndex :: jsindex
  edgeIndex :: jsindex
  throughVertexIndex :: jsindex
  parallelToEdgeIndex :: jsindex
  perpendicularToEdgeIndex :: jsindex
  edgeIndex1 :: jsindex
  edgeIndex2 :: jsindex
  direction :: "string option"
  extendLength :: "real option"

record auxiliaryLine =
  aux_type :: string
  aux_params :: params

text \<open>
  The comparison \<open>v >= n\<close> of an index key with \<open>points.length\<close>: \<^verbatim>\<open>undefined\<close> is
  converted to \<open>NaN\<close>, and every comparison with \<open>NaN\<close> is false.
\<close>

fun jsGe :: "jsindex \<Rightarrow> nat \<Rightarrow> bool" where
  "jsGe None n = False"
| "jsGe (Some (Fin x)) n = (real n \<le> x)"
| "jsGe (Some PosInf) n = True"
| "jsGe (Some NegInf) n = False"
| "jsGe (Some NaN) n = False"

text \<open>The sum \<open>v + k\<close> of an index key and a number: \<open>NaN\<close> for \<^verbatim>\<open>undefined\<close>.\<close>

definition plusNumber :: "jsindex \<Rightarrow> real \<Rightarrow> jsnum" where
  "plusNumber v k = (case v of None \<Rightarrow> NaN | Some x \<Rightarrow> jadd x (Fin k))"

text \<open>
  The remainder \<open>x % d\<close>: the quotient is truncated towards zero, so the result has
  the sign of \<open>x\<close>; \<open>NaN\<close> when \<open>x\<close> is not finite or \<open>d\<close> is zero.
\<close>

fun jrem :: "jsnum \<Rightarrow> jsnum \<Rightarrow> jsnum" where
  "jrem (Fin x) (Fin d) =
     (if d = 0 then NaN
      else Fin (x - d * of_int (if 0 \<le> x / d then \<lfloor>x / d\<rfloor> else \<lceil>x / d\<rceil>)))"
| "jrem (Fin x) PosInf = Fin x"
| "jrem (Fin x) NegInf = Fin x"
| "jrem x d = NaN"

text \<open>
  The element read \<open>points[v]\<close>: the entry when \<open>v\<close> is one of the numbers
  \<open>0, ..., points.length - 1\<close>, and \<^verbatim>\<open>undefined\<close> (\<open>None\<close>) for every other number and
  for \<^verbatim>\<open>undefined\<close>: an array has no property of that name.
\<close>

definition elemAt :: "rpoint list \<Rightarrow> jsindex \<Rightarrow> rpoint option" where
  "elemAt points v =
     (case v of
        Some (Fin r) \<Rightarrow>
          if 0 \<le> r \<and> r = of_int \<lfloor>r\<rfloor> \<and> nat \<lfloor>r\<rfloor> < length points
          then Some (points ! nat \<lfloor>r\<rfloor>) else None
      | _ \<Rightarrow> None)"

text \<open>Reading a coordinate of an entry: a TypeError when the entry is \<^verbatim>\<open>undefined\<close>.\<close>

definition deref :: "rpoint option \<Rightarrow> error + rpoint" where
  "deref p = (case p of None \<Rightarrow> Inl TypeError | Some q \<Rightarrow> Inr q)"

definition bindE :: "error + 'a \<Rightarrow> ('a \<Rightarrow> error + 'b) \<Rightarrow> error + 'b" where
  "bindE m f = (case m of Inl e \<Rightarrow> Inl e | Inr v \<Rightarrow> f v)"

text \<open>
  The element read \<open>points[i]\<close> by a loop counter, followed by a read of its
  coordinates.
\<close>

definition pointAt :: "rpoint list \<Rightarrow> nat \<Rightarrow> error + rpoint" where
  "pointAt points i = (if i < length points then Inr (points ! i) else Inl TypeError)"

text \<open>
  What a handler returns: \<open>start\<close>, \<open>end\<close> and \<open>type\<close>, the further points some types
  add under their own keys (\<^verbatim>\<open>midpoint\<close>, \<^verbatim>\<open>foot\<close>, ...), in the order of the source,
  and the flag \<^verbatim>\<open>isRightAngle\<close> (false where the key is absent). Four handlers copy
  \<open>points[v]\<close> into \<open>start\<close> or \<open>end\<close> without reading its coordinates, so these two
  may be \<^verbatim>\<open>undefined\<close>: \<open>None\<close>.
\<close>

record endpoints =
  ep_start :: "rpoint option"
  ep_end :: "rpoint option"
  ep_marks :: "(string \<times> rpoint) list"
  ep_isRightAngle :: bool
  ep_type :: string

text \<open>\<^verbatim>\<open>Point.midpoint(p1, p2)\<close> on two entries of \<open>points\<close>: it reads their coordinates.\<close>

definition midpointOf :: "rpoint option \<Rightarrow> rpoint option \<Rightarrow> error + rpoint" where
  "midpointOf p1 p2 = bindE (deref p1) (\<lambda>a. bindE (deref p2) (\<lambda>b. Inr (midpoint a b)))"

text \<open>
  \<^verbatim>\<open>AuxiliaryLine._perpendicularFoot\<close>. The coordinates of the two ends of the edge
  are read first; those of \<open>point\<close> are read only when the edge has a length.
\<close>

definition perpendicularFoot ::
    "rpoint option \<Rightarrow> rpoint option \<Rightarrow> rpoint option \<Rightarrow> error + rpoint" where
  "perpendicularFoot point lineStart lineEnd =
     bindE (deref lineEnd) (\<lambda>e.
     bindE (deref lineStart) (\<lambda>s.
     (let dx = px e - px s;
          dy = py e - py s;
          len2 = dx * dx + dy * dy
      in if len2 = 0 then Inr s
         else bindE (deref point) (\<lambda>p.
              (let t = ((px p - px s) * dx + (py p - py s) * dy) / len2
               in Inr (Point (px s + t * dx) (py s + t * dy)))))))"

text \<open>\<^verbatim>\<open>AuxiliaryLine._lineIntersection\<close>; \<open>None\<close> is \<^verbatim>\<open>null\<close>.\<close>

definition lineIntersection :: "rpoint \<Rightarrow> rpoint \<Rightarrow> rpoint \<Rightarrow> rpoint \<Rightarrow> rpoint option" where
  "lineIntersection p1 p2 p3 p4 =
     (let d1x = px p2 - px p1; d1y = py p2 - py p1;
          d2x = px p4 - px p3; d2y = py p4 - py p3;
          cross = d1x * d2y - d1y * d2x
      in if \<bar>cross\<bar> < 1 / 10000 then None
         else (let t = ((px p3 - px p1) * d2y - (py p3 - py p1) * d2x) / cross
               in Some (Point (px p1 + t * d1x) (py p1 + t * d1y))))"

text \<open>\<^verbatim>\<open>AuxiliaryLine._isPointOnSegment\<close>\<close>

definition isPointOnSegment :: "rpoint \<Rightarrow> rpoint \<Rightarrow> rpoint \<Rightarrow> bool" where
  "isPointOnSegment point segStart segEnd =
     (let margin = 1 / 10
      in px point \<ge> min (px segStart) (px segEnd) - margin \<and>
         px point \<le> max (px segStart) (px segEnd) + margin \<and>
         py point \<ge> min (py segStart) (py segEnd) - margin \<and>
         py point \<le> max (py segStart) (py segEnd) + margin)"

text \<open>\<^verbatim>\<open>_getConnectingEndpoints\<close>\<close>

definition getConnectingEndpoints :: "params \<Rightarrow> rpoint list \<Rightarrow> error + endpoints option" where
  "getConnectingEndpoints ps points =
     (if jsGe (vertexIndex1 ps) (length points) \<or> jsGe (vertexIndex2 ps) (length points)
      then Inr None
      else Inr (Some \<lparr>ep_start = elemAt points (vertexIndex1 ps),
                      ep_end = elemAt points (vertexIndex2 ps),
                      ep_marks = [], ep_isRightAngle = False, ep_type = ''segment''\<rparr>))"

text \<open>\<^verbatim>\<open>_getMedianEndpoints\<close>\<close>

definition getMedianEndpoints :: "params \<Rightarrow> rpoint list \<Rightarrow> error + endpoints option" where
  "getMedianEndpoints ps points =
     (let n = length points
      in if jsGe (vertexIndex ps) n \<or> n < 3 then Inr None
         else (let i1 = jrem (plusNumber (vertexIndex ps) 1) (Fin (real n));
                   i2 = jrem (plusNumber (vertexIndex ps) 2) (Fin (real n))
               in bindE (midpointOf (elemAt points (Some i1)) (elemAt points (Some i2))) (\<lambda>m.
                  Inr (Some \<lparr>ep_start = elemAt points (vertexIndex ps), ep_end = Some m,
                             ep_marks = [(''midpoint'', m)],
                             ep_isRightAngle = False, ep_type = ''segment''\<rparr>))))"

text \<open>
  \<^verbatim>\<open>_getAltitudeEndpoints\<close>. When the helper has returned, it has read the
  coordinates of \<open>edgeStart\<close> and \<open>edgeEnd\<close>: both are points.
\<close>

definition getAltitudeEndpoints :: "params \<Rightarrow> rpoint list \<Rightarrow> error + endpoints option" where
  "getAltitudeEndpoints ps points =
     (let n = length points
      in if jsGe (vertexIndex ps) n \<or> n < 3 then Inr None
         else (let vertex = elemAt points (vertexIndex ps);
                   edgeStart = elemAt points (Some (jrem (plusNumber (vertexIndex ps) 1) (Fin (real n))));
                   edgeEnd = elemAt points (Some (jrem (plusNumber (vertexIndex ps) 2) (Fin (real n))))
               in bindE (perpendicularFoot vertex edgeStart edgeEnd) (\<lambda>foot.
                  bindE (deref edgeStart) (\<lambda>es.
                  bindE (deref edgeEnd) (\<lambda>ee.
                  Inr (Some \<lparr>ep_start = vertex, ep_end = Some foot,
                             ep_marks = [(''foot'', foot), (''edgeStart'', es), (''edgeEnd'', ee)],
                             ep_isRightAngle = True, ep_type = ''segment''\<rparr>))))))"

text \<open>\<^verbatim>\<open>_getPerpendicularBisectorEndpoints\<close>\<close>

definition getPerpendicularBisectorEndpoints :: "params \<Rightarrow> rpoint list \<Rightarrow> error + endpoints option" where
  "getPerpendicularBisectorEndpoints ps points =
     (let n = length points
      in if jsGe (edgeIndex ps) n then Inr None
         else bindE (deref (elemAt points (edgeIndex ps))) (\<lambda>p1.
              bindE (deref (elemAt points (Some (jrem (plusNumber (edgeIndex ps) 1) (Fin (real n)))))) (\<lambda>p2.
              (let m = midpoint p1 p2;
                   dx = px p2 - px p1;
                   dy = py p2 - py p1;
                   len = sqrt (dx * dx + dy * dy)
               in if len = 0 then Inr None
                  else (let perpX = - dy / len;
                            perpY = dx / len;
                            extendLength = 300
                        in Inr (Some \<lparr>ep_start = Some (Point (px m - perpX * extendLength)
                                                              (py m - perpY * extendLength)),
                                      ep_end = Some (Point (px m + perpX * extendLength)
                                                            (py m + perpY * extendLength)),
                                      ep_marks = [(''midpoint'', m)],
                                      ep_isRightAngle = True, ep_type = ''line''\<rparr>))))))"

text \<open>
  The loop of \<^verbatim>\<open>_getAngleBisectorEndpoints\<close> over the edges \<open>i = 0, ..., n - 1\<close>: the
  two edges at the vertex are skipped, and the first intersection that lies on
  its edge ends the loop.
\<close>

primrec bisectorIntersection ::
    "rpoint list \<Rightarrow> jsindex \<Rightarrow> rpoint \<Rightarrow> rpoint \<Rightarrow> nat list \<Rightarrow> error + rpoint option" where
  "bisectorIntersection points vIndex vertex bisectorEnd [] = Inr None"
| "bisectorIntersection points vIndex vertex bisectorEnd (i # rest) =
     (let n = length points
      in if Some (Fin (real i)) = vIndex
            \<or> Fin (real i) = jrem (jsub (plusNumber vIndex (real n)) (Fin 1)) (Fin (real n))
         then bisectorIntersection points vIndex vertex bisectorEnd rest
         else bindE (pointAt points i) (\<lambda>a.
              bindE (pointAt points ((i + 1) mod n)) (\<lambda>b.
              (case lineIntersection vertex bisectorEnd a b of
                 None \<Rightarrow> bisectorIntersection points vIndex vertex bisectorEnd rest
               | Some hit \<Rightarrow>
                   if isPointOnSegment hit a b then Inr (Some hit)
                   else bisectorIntersection points vIndex vertex bisectorEnd rest))))"

text \<open>
  \<^verbatim>\<open>_getAngleBisectorEndpoints\<close>. \<^verbatim>\<open>Vector.fromPoints\<close> reads the coordinates of
  \<open>vertex\<close>, \<open>prev\<close> and \<open>next\<close>.
\<close>

definition getAngleBisectorEndpoints :: "params \<Rightarrow> rpoint list \<Rightarrow> error + endpoints option" where
  "getAngleBisectorEndpoints ps points =
     (let n = length points
      in if jsGe (vertexIndex ps) n \<or> n < 3 then Inr None
         else bindE (deref (elemAt points (Some (jrem (jsub (plusNumber (vertexIndex ps) (real n)) (Fin 1))
                                                      (Fin (real n)))))) (\<lambda>prev.
              bindE (deref (elemAt points (vertexIndex ps))) (\<lambda>vertex.
              bindE (deref (elemAt points (Some (jrem (plusNumber (vertexIndex ps) 1) (Fin (real n)))))) (\<lambda>next.
              (let v1 = normalize_vector (fromPoints vertex prev);
                   v2 = normalize_vector (fromPoints vertex next);
                   bisectorDir = normalize_vector (Vector (vx v1 + vx v2) (vy v1 + vy v2));
                   extendLength = 500;
                   bisectorEnd = Point (px vertex + vx bisectorDir * extendLength)
                                       (py vertex + vy bisectorDir * extendLength)
               in bindE (bisectorIntersection points (vertexIndex ps) vertex bisectorEnd [0..<n])
                    (\<lambda>intersection.
                      Inr (Some \<lparr>ep_start = Some vertex,
                                 ep_end = Some (case intersection of Some p \<Rightarrow> p | None \<Rightarrow> bisectorEnd),
                                 ep_marks = [], ep_isRightAngle = False, ep_type = ''ray''\<rparr>)))))))"

text \<open>
  \<^verbatim>\<open>_getParallelEndpoints\<close>. The coordinates of \<open>throughPoint\<close> are read only when
  the edge has a length.
\<close>

definition getParallelEndpoints :: "params \<Rightarrow> rpoint list \<Rightarrow> error + endpoints option" where
  "getParallelEndpoints ps points =
     (let n = length points
      in if jsGe (throughVertexIndex ps) n \<or> jsGe (parallelToEdgeIndex ps) n then Inr None
         else bindE (deref (elemAt points (Some (jrem (plusNumber (parallelToEdgeIndex ps) 1)
                                                      (Fin (real n)))))) (\<lambda>edgeEnd.
              bindE (deref (elemAt points (parallelToEdgeIndex ps))) (\<lambda>edgeStart.
              (let dx = px edgeEnd - px edgeStart;
                   dy = py edgeEnd - py edgeStart;
                   len = sqrt (dx * dx + dy * dy)
               in if len = 0 then Inr None
                  else bindE (deref (elemAt points (throughVertexIndex ps))) (\<lambda>throughPoint.
                       (let dirX = dx / len;
                            dirY = dy / len;
                            extendLength = 300
                        in Inr (Some \<lparr>ep_start = Some (Point (px throughPoint - dirX * extendLength)
                                                              (py throughPoint - dirY * extendLength)),
                                      ep_end = Some (Point (px throughPoint + dirX * extendLength)
                                                            (py throughPoint + dirY * extendLength)),
                                      ep_marks = [(''throughPoint'', throughPoint)],
                                      ep_isRightAngle = False, ep_type = ''line''\<rparr>)))))))"

text \<open>\<^verbatim>\<open>_getPerpendicularEndpoints\<close>\<close>

definition getPerpendicularEndpoints :: "params \<Rightarrow> rpoint list \<Rightarrow> error + endpoints option" where
  "getPerpendicularEndpoints ps points =
     (let n = length points
      in if jsGe (throughVertexIndex ps) n \<or> jsGe (perpendicularToEdgeIndex ps) n then Inr None
         else (let throughPoint = elemAt points (throughVertexIndex ps);
                   edgeStart = elemAt points (perpendicularToEdgeIndex ps);
                   edgeEnd = elemAt points (Some (jrem (plusNumber (perpendicularToEdgeIndex ps) 1)
                                                       (Fin (real n))))
               in bindE (perpendicularFoot throughPoint edgeStart edgeEnd) (\<lambda>foot.
                  Inr (Some \<lparr>ep_start = throughPoint, ep_end = Some foot,
                             ep_marks = [(''foot'', foot)],
                             ep_isRightAngle = True, ep_type = ''segment''\<rparr>))))"

text \<open>\<^verbatim>\<open>_getMidlineEndpoints\<close>\<close>

definition getMidlineEndpoints :: "params \<Rightarrow> rpoint list \<Rightarrow> error + endpoints option" where
  "getMidlineEndpoints ps points =
     (let n = length points
      in if jsGe (edgeIndex1 ps) n \<or> jsGe (edgeIndex2 ps) n then Inr None
         else bindE (midpointOf (elemAt points (edgeIndex1 ps))
                       (elemAt points (Some (jrem (plusNumber (edgeIndex1 ps) 1) (Fin (real n)))))) (\<lambda>mid1.
              bindE (midpointOf (elemAt points (edgeIndex2 ps))
                       (elemAt points (Some (jrem (plusNumber (edgeIndex2 ps) 1) (Fin (real n)))))) (\<lambda>mid2.
              Inr (Some \<lparr>ep_start = Some mid1, ep_end = Some mid2,
                         ep_marks = [(''midpoint1'', mid1), (''midpoint2'', mid2)],
                         ep_isRightAngle = False, ep_type = ''segment''\<rparr>))))"

text \<open>\<^verbatim>\<open>_getExtensionEndpoints\<close>\<close>

definition getExtensionEndpoints :: "params \<Rightarrow> rpoint list \<Rightarrow> error + endpoints option" where
  "getExtensionEndpoints ps points =
     (let dir = (case direction ps of None \<Rightarrow> ''both'' | Some d \<Rightarrow> d);
          ext = (case extendLength ps of None \<Rightarrow> 150 | Some l \<Rightarrow> l);
          n = length points
      in if jsGe (edgeIndex ps) n then Inr None
         else bindE (deref (elemAt points (Some (jrem (plusNumber (edgeIndex ps) 1) (Fin (real n)))))) (\<lambda>p2.
              bindE (deref (elemAt points (edgeIndex ps))) (\<lambda>p1.
              (let dx = px p2 - px p1;
                   dy = py p2 - py p1;
                   len = sqrt (dx * dx + dy * dy)
               in if len = 0 then Inr None
                  else (let dirX = dx / len;
                            dirY = dy / len;
                            se = (if dir = ''both''
                                  then (Point (px p1 - dirX * ext) (py p1 - dirY * ext),
                                        Point (px p2 + dirX * ext) (py p2 + dirY * ext))
                                  else if dir = ''start''
                                  then (Point (px p1 - dirX * ext) (py p1 - dirY * ext), p1)
                                  else (p2, Point (px p2 + dirX * ext) (py p2 + dirY * ext)))
                        in Inr (Some \<lparr>ep_start = Some (fst se), ep_end = Some (snd se), ep_marks = [],
                                      ep_isRightAngle = False, ep_type = ''ray''\<rparr>))))))"

text \<open>The nine construction types: the own keys of the table \<^verbatim>\<open>handlers\<close>.\<close>

definition knownTypes :: "string list" where
  "knownTypes = [''connecting'', ''median'', ''altitude'', ''perpendicular-bisector'',
                 ''angle-bisector'', ''parallel'', ''perpendicular'', ''midline'', ''extension'']"

text \<open>
  The table \<^verbatim>\<open>handlers\<close> is an object literal, so the lookup \<open>handlers[this.type]\<close>
  also finds the members an object inherits from \<^verbatim>\<open>Object.prototype\<close>:
\<close>

definition inheritedMembers :: "string list" where
  "inheritedMembers = [''constructor'', ''hasOwnProperty'', ''isPrototypeOf'',
                       ''propertyIsEnumerable'', ''toLocaleString'', ''toString'', ''valueOf'',
                       ''__proto__'', ''__defineGetter__'', ''__defineSetter__'',
                       ''__lookupGetter__'', ''__lookupSetter__'']"

text \<open>
  What \<^verbatim>\<open>getEndpoints\<close> returns: \<^verbatim>\<open>null\<close>, the object of a handler, or what the call
  of an inherited member gives: a new empty object, a string, or the table
  \<^verbatim>\<open>handlers\<close> itself.
\<close>

datatype returned = Null | Endpoints endpoints | EmptyObject | StringValue string | HandlersTable

text \<open>
  The call \<open>handlers[t]?.()\<close> for an inherited member \<open>t\<close>, without arguments and
  with the table as \<open>this\<close>, followed by \<open>|| null\<close>. \<^verbatim>\<open>__proto__\<close> is the prototype,
  an object that cannot be called; \<^verbatim>\<open>__defineGetter__\<close> and \<^verbatim>\<open>__defineSetter__\<close>
  refuse a getter that is not a function; \<^verbatim>\<open>constructor\<close> is \<^verbatim>\<open>Object\<close>;
  \<^verbatim>\<open>toLocaleString\<close> calls \<^verbatim>\<open>toString\<close>; \<^verbatim>\<open>valueOf\<close> returns \<open>this\<close>; the others return
  \<^verbatim>\<open>false\<close> or \<^verbatim>\<open>undefined\<close>.
\<close>

definition callInherited :: "string \<Rightarrow> error + returned" where
  "callInherited t =
     (if t = ''__proto__'' \<or> t = ''__defineGetter__'' \<or> t = ''__defineSetter__''
      then Inl TypeError
      else if t = ''constructor'' then Inr EmptyObject
      else if t = ''toString'' \<or> t = ''toLocaleString'' then Inr (StringValue ''[object Object]'')
      else if t = ''valueOf'' then Inr HandlersTable
      else Inr Null)"

text \<open>The object or \<^verbatim>\<open>null\<close> of a handler, through \<open>|| null\<close>: an object is truthy.\<close>

definition orNull :: "error + endpoints option \<Rightarrow> error + returned" where
  "orNull r = (case r of Inl e \<Rightarrow> Inl e | Inr None \<Rightarrow> Inr Null | Inr (Some e) \<Rightarrow> Inr (Endpoints e))"

text \<open>
  \<^verbatim>\<open>AuxiliaryLine.getEndpoints\<close>. The second argument is \<open>this.shape?.points\<close> as it
  is at the call: \<open>None\<close> when the shape reference is \<^verbatim>\<open>null\<close> or \<^verbatim>\<open>undefined\<close> or
  the shape has no \<^verbatim>\<open>points\<close>. A type that is no member of the table gives
  \<^verbatim>\<open>undefined\<close>, which \<open>?.()\<close> does not call.
\<close>

definition getEndpoints :: "auxiliaryLine \<Rightarrow> rpoint list option \<Rightarrow> error + returned" where
  "getEndpoints line shapePoints =
     (case shapePoints of
        None \<Rightarrow> Inr Null
      | Some points \<Rightarrow>
          (let t = aux_type line; ps = aux_params line
           in if t = ''connecting'' then orNull (getConnectingEndpoints ps points)
              else if t = ''median'' then orNull (getMedianEndpoints ps points)
              else if t = ''altitude'' then orNull (getAltitudeEndpoints ps points)
              else if t = ''perpendicular-bisector''
                then orNull (getPerpendicularBisectorEndpoints ps points)
              else if t = ''angle-bisector'' then orNull (getAngleBisectorEndpoints ps points)
              else if t = ''parallel'' then orNull (getParallelEndpoints ps points)
              else if t = ''perpendicular'' then orNull (getPerpendicularEndpoints ps points)
              else if t = ''midline'' then orNull (getMidlineEndpoints ps points)
              else if t = ''extension'' then orNull (getExtensionEndpoints ps points)
              else if t \<in> set inheritedMembers then callInherited t
              else Inr Null))"

section \<open>Shapes and their JSON form (geometry-engine.js, shapes-2d.js)\<close>

text \<open>
  The values of a style object are strings and numbers. An object with string
  keys is a map; a key that is not there reads as \<^verbatim>\<open>undefined\<close>.
\<close>

datatype jsval = JNum real | JStr string

type_synonym jsobject = "string \<rightharpoonup> jsval"

text \<open>
  The fields a subclass of \<^verbatim>\<open>Shape\<close> adds. A circle keeps the radius it was built
  with; its field \<^verbatim>\<open>center\<close> is the very object \<open>points[0]\<close> and is read from
  there.
\<close>

datatype family =
    Point2D
  | Line2D string
  | Triangle string
  | Quadrilateral string
  | Circle real string real real
  | Polygon nat bool

text \<open>
  A shape. The field \<^verbatim>\<open>info\<close> (a name and a description for display) is left out:
  no property stated here reads it.
\<close>

record shape =
  sh_id :: string
  sh_type :: string
  sh_points :: "rpoint list"
  sh_style :: jsobject
  sh_visible :: bool
  sh_selected :: bool
  sh_draggable :: bool
  sh_family :: family

text \<open>The default style of the \<^verbatim>\<open>Shape\<close> constructor.\<close>

definition defaultStyle :: jsobject where
  "defaultStyle =
     [''fillColor'' \<mapsto> JStr ''rgba(102, 126, 234, 0.2)'',
      ''strokeColor'' \<mapsto> JStr ''#667eea'',
      ''lineWidth'' \<mapsto> JNum 3,
      ''pointColor'' \<mapsto> JStr ''#764ba2'',
      ''pointRadius'' \<mapsto> JNum 12,
      ''labelColor'' \<mapsto> JStr ''#374151'']"

text \<open>
  The \<^verbatim>\<open>Shape\<close> constructor: \<open>newId\<close> is the id drawn from the global counter, and
  \<open>optStyle\<close> is \<^verbatim>\<open>options.style\<close>, spread over the default style. The subclass
  constructor that calls it passes its own fields.
\<close>

definition Shape_new :: "string \<Rightarrow> string \<Rightarrow> jsobject option \<Rightarrow> family \<Rightarrow> shape" where
  "Shape_new newId type' optStyle fam =
     \<lparr>sh_id = newId, sh_type = type', sh_points = [],
      sh_style = defaultStyle ++ (case optStyle of None \<Rightarrow> Map.empty | Some st \<Rightarrow> st),
      sh_visible = True, sh_selected = False, sh_draggable = True, sh_family = fam\<rparr>"

text \<open>\<^verbatim>\<open>Point2D\<close>: an argument that is \<^verbatim>\<open>undefined\<close> takes the default \<open>0\<close> of \<^verbatim>\<open>Point\<close>.\<close>

definition Point2D_new :: "string \<Rightarrow> real option \<Rightarrow> real option \<Rightarrow> jsobject option \<Rightarrow> shape" where
  "Point2D_new newId x' y' optStyle =
     (Shape_new newId ''point'' optStyle Point2D)
       \<lparr>sh_points := [Point (case x' of None \<Rightarrow> 0 | Some a \<Rightarrow> a)
                             (case y' of None \<Rightarrow> 0 | Some b \<Rightarrow> b)]\<rparr>"

definition Line2D_new :: "string \<Rightarrow> rpoint \<Rightarrow> rpoint \<Rightarrow> string \<Rightarrow> jsobject option \<Rightarrow> shape" where
  "Line2D_new newId p1 p2 lineType optStyle =
     (Shape_new newId ''line'' optStyle (Line2D lineType))\<lparr>sh_points := [p1, p2]\<rparr>"

text \<open>
  \<^verbatim>\<open>Triangle\<close>: the given vertices are kept when there are exactly three of them;
  \<open>None\<close> is the \<^verbatim>\<open>null\<close> the factory \<^verbatim>\<open>createShape2D\<close> passes.
\<close>

definition Triangle_new :: "string \<Rightarrow> rpoint list option \<Rightarrow> string \<Rightarrow> jsobject option \<Rightarrow> shape" where
  "Triangle_new newId pts triangleType optStyle =
     (Shape_new newId ''triangle'' optStyle (Triangle triangleType))
       \<lparr>sh_points := (case pts of
                        Some ps \<Rightarrow> if length ps = 3 then ps else Triangle_default_points
                      | None \<Rightarrow> Triangle_default_points)\<rparr>"

text \<open>\<^verbatim>\<open>Quadrilateral._createDefaultPoints(type, cx, cy, size)\<close>\<close>

definition createDefaultPoints :: "string \<Rightarrow> real \<Rightarrow> real \<Rightarrow> real \<Rightarrow> rpoint list" where
  "createDefaultPoints type' cx cy size' =
     (if type' = ''square'' then
        [Point (cx + size') (cy - size'), Point (cx + size') (cy + size'),
         Point (cx - size') (cy + size'), Point (cx - size') (cy - size')]
      else if type' = ''rectangle'' then
        [Point (cx + size') (cy - size' * (7 / 10)), Point (cx + size') (cy + size' * (7 / 10)),
         Point (cx - size') (cy + size' * (7 / 10)), Point (cx - size') (cy - size' * (7 / 10))]
      else if type' = ''rhombus'' then
        [Point cx (cy - size'), Point (cx + size' * (13 / 10)) cy,
         Point cx (cy + size'), Point (cx - size' * (13 / 10)) cy]
      else if type' = ''parallelogram'' then
        [Point (cx + 50) (cy - 80), Point (cx + 130) (cy + 60),
         Point (cx - 50) (cy + 80), Point (cx - 130) (cy - 60)]
      else if type' = ''trapezoid'' then
        [Point (cx + 60) (cy - 80), Point (cx + 140) (cy + 80),
         Point (cx - 140) (cy + 80), Point (cx - 60) (cy - 80)]
      else if type' = ''kite'' then
        [Point cx (cy - 120), Point (cx + 80) cy, Point cx (cy + 100), Point (cx - 80) cy]
      else
        [Point (cx + 70) (cy - 100), Point (cx + 120) (cy + 70),
         Point (cx - 20) (cy + 120), Point (cx - 100) (cy - 30)])"

definition Quadrilateral_new :: "string \<Rightarrow> rpoint list option \<Rightarrow> string \<Rightarrow> jsobject option \<Rightarrow> shape" where
  "Quadrilateral_new newId pts quadType optStyle =
     (Shape_new newId ''quadrilateral'' optStyle (Quadrilateral quadType))
       \<lparr>sh_points := (case pts of
                        Some ps \<Rightarrow> if length ps = 4 then ps
                                   else createDefaultPoints quadType 250 200 100
                      | None \<Rightarrow> createDefaultPoints quadType 250 200 100)\<rparr>"

text \<open>
  \<^verbatim>\<open>Circle\<close>: \<open>options.startAngle || 0\<close> and \<open>options.endAngle || Math.PI * 2\<close>; the
  number \<open>0\<close> is falsy.
\<close>

definition Circle_new ::
    "string \<Rightarrow> rpoint \<Rightarrow> real \<Rightarrow> string \<Rightarrow> jsobject option \<Rightarrow> real option \<Rightarrow> real option \<Rightarrow> shape" where
  "Circle_new newId center radius circleType optStyle optStart optEnd =
     (Shape_new newId ''circle'' optStyle
        (Circle radius circleType
           (case optStart of None \<Rightarrow> 0 | Some a \<Rightarrow> a)
           (case optEnd of None \<Rightarrow> pi * 2 | Some a \<Rightarrow> if a = 0 then pi * 2 else a)))
       \<lparr>sh_points := [center, Point (px center + radius) (py center)]\<rparr>"

text \<open>
  \<^verbatim>\<open>Polygon\<close>, called with an array of vertices as \<^verbatim>\<open>Polygon.fromJSON\<close> calls it: at
  least three vertices are kept; otherwise a regular polygon of radius 100 around
  \<open>(250, 200)\<close> is built, with 5 sides when \<^verbatim>\<open>sides\<close> is \<^verbatim>\<open>undefined\<close>.
\<close>

definition Polygon_new :: "string \<Rightarrow> rpoint list \<Rightarrow> nat option \<Rightarrow> jsobject option \<Rightarrow> bool option \<Rightarrow> shape" where
  "Polygon_new newId pts optSides optStyle optRegular =
     (if length pts \<ge> 3 then
        (Shape_new newId ''polygon'' optStyle
           (Polygon (length pts) (case optRegular of None \<Rightarrow> False | Some b \<Rightarrow> b)))
          \<lparr>sh_points := pts\<rparr>
      else
        (let sides = (case optSides of None \<Rightarrow> 5 | Some k \<Rightarrow> k)
         in (Shape_new newId ''polygon'' optStyle (Polygon sides True))
              \<lparr>sh_points := regularPolygonPoints (Point 250 200) 100 sides (- (pi / 2))\<rparr>))"

text \<open>
  The object a \<^verbatim>\<open>toJSON\<close> returns and a \<^verbatim>\<open>fromJSON\<close> reads. The keys every
  \<^verbatim>\<open>toJSON\<close> writes are plain fields; a key only some class writes or reads is an
  option, \<open>None\<close> when the key is not in the object. The key \<^verbatim>\<open>info\<close> is left out
  with the field.
\<close>

record json =
  j_id :: string
  j_type :: string
  j_points :: "rpoint list"
  j_style :: "jsobject option"
  j_visible :: bool
  j_draggable :: bool
  j_x :: "real option"
  j_y :: "real option"
  j_center :: "rpoint option"
  j_radius :: "real option"
  j_circleType :: "string option"
  j_startAngle :: "real option"
  j_endAngle :: "real option"
  j_sides :: "nat option"
  j_isRegular :: "bool option"
  j_lineType :: "string option"
  j_triangleType :: "string option"
  j_quadType :: "string option"

text \<open>\<^verbatim>\<open>Shape.toJSON\<close>: the seven keys of the base class, less \<^verbatim>\<open>info\<close>.\<close>

definition Shape_toJSON :: "shape \<Rightarrow> json" where
  "Shape_toJSON s =
     \<lparr>j_id = sh_id s, j_type = sh_type s, j_points = sh_points s,
      j_style = Some (sh_style s), j_visible = sh_visible s, j_draggable = sh_draggable s,
      j_x = None, j_y = None, j_center = None, j_radius = None, j_circleType = None,
      j_startAngle = None, j_endAngle = None, j_sides = None, j_isRegular = None,
      j_lineType = None, j_triangleType = None, j_quadType = None\<rparr>"

text \<open>
  \<^verbatim>\<open>toJSON\<close> as the class of the shape resolves it: \<^verbatim>\<open>Point2D\<close>, \<^verbatim>\<open>Circle\<close> and
  \<^verbatim>\<open>Polygon\<close> override it and add their keys to those of \<^verbatim>\<open>super.toJSON()\<close>;
  \<^verbatim>\<open>Line2D\<close>, \<^verbatim>\<open>Triangle\<close> and \<^verbatim>\<open>Quadrilateral\<close> inherit \<^verbatim>\<open>Shape.toJSON\<close>.
\<close>

definition toJSON :: "shape \<Rightarrow> error + json" where
  "toJSON s =
     (case sh_family s of
        Point2D \<Rightarrow>
          (case sh_points s of
             [] \<Rightarrow> Inl TypeError
           | p # _ \<Rightarrow> Inr ((Shape_toJSON s)\<lparr>j_x := Some (px p), j_y := Some (py p)\<rparr>))
      | Circle radius circleType startAngle endAngle \<Rightarrow>
          (case sh_points s of
             [] \<Rightarrow> Inl TypeError
           | c # _ \<Rightarrow> Inr ((Shape_toJSON s)\<lparr>j_center := Some c, j_radius := Some radius,
                              j_circleType := Some circleType, j_startAngle := Some startAngle,
                              j_endAngle := Some endAngle\<rparr>))
      | Polygon sides isRegular \<Rightarrow>
          Inr ((Shape_toJSON s)\<lparr>j_sides := Some sides, j_isRegular := Some isRegular\<rparr>)
      | _ \<Rightarrow> Inr (Shape_toJSON s))"

text \<open>\<open>v || d\<close> on a string that may be absent: the empty string is falsy.\<close>

definition orDefault :: "string option \<Rightarrow> string \<Rightarrow> string" where
  "orDefault v d = (case v of None \<Rightarrow> d | Some s \<Rightarrow> if s = [] then d else s)"

text \<open>
  The static methods \<^verbatim>\<open>fromJSON\<close>. Each builds the shape with its constructor (with an
  id \<open>newId\<close> from the counter) and then overwrites the id with \<^verbatim>\<open>data.id\<close>.
\<close>

definition Point2D_fromJSON :: "string \<Rightarrow> json \<Rightarrow> error + shape" where
  "Point2D_fromJSON newId data =
     Inr ((Point2D_new newId (j_x data) (j_y data) (j_style data))\<lparr>sh_id := j_id data\<rparr>)"

definition Line2D_fromJSON :: "string \<Rightarrow> json \<Rightarrow> error + shape" where
  "Line2D_fromJSON newId data =
     (if length (j_points data) \<ge> 2 then
        Inr ((Line2D_new newId (j_points data ! 0) (j_points data ! 1)
                (orDefault (j_lineType data) ''segment'') (j_style data))\<lparr>sh_id := j_id data\<rparr>)
      else Inl TypeError)"

definition Triangle_fromJSON :: "string \<Rightarrow> json \<Rightarrow> error + shape" where
  "Triangle_fromJSON newId data =
     Inr ((Triangle_new newId (Some (j_points data)) (orDefault (j_triangleType data) ''any'')
             (j_style data))\<lparr>sh_id := j_id data\<rparr>)"

definition Quadrilateral_fromJSON :: "string \<Rightarrow> json \<Rightarrow> error + shape" where
  "Quadrilateral_fromJSON newId data =
     Inr ((Quadrilateral_new newId (Some (j_points data)) (orDefault (j_quadType data) ''any'')
             (j_style data))\<lparr>sh_id := j_id data\<rparr>)"

text \<open>
  \<^verbatim>\<open>Circle.fromJSON\<close> reads \<open>data.center.x\<close>, a TypeError when there is no center.
  With no radius the source goes on with \<^verbatim>\<open>undefined\<close> and builds a control point
  whose \<open>x\<close> is NaN; the model, whose coordinates are real numbers, stops there
  with \<open>NotANumber\<close>.
\<close>

definition Circle_fromJSON :: "string \<Rightarrow> json \<Rightarrow> error + shape" where
  "Circle_fromJSON newId data =
     (case j_center data of
        None \<Rightarrow> Inl TypeError
      | Some c \<Rightarrow>
          (case j_radius data of
             None \<Rightarrow> Inl NotANumber
           | Some r \<Rightarrow>
               Inr ((Circle_new newId c r (orDefault (j_circleType data) ''circle'') (j_style data)
                       (j_startAngle data) (j_endAngle data))\<lparr>sh_id := j_id data\<rparr>)))"

definition Polygon_fromJSON :: "string \<Rightarrow> json \<Rightarrow> error + shape" where
  "Polygon_fromJSON newId data =
     Inr ((Polygon_new newId (j_points data) (j_sides data) (j_style data) (j_isRegular data))
            \<lparr>sh_id := j_id data\<rparr>)"

text \<open>\<^verbatim>\<open>shapeFromJSON\<close>; \<open>None\<close> is \<^verbatim>\<open>null\<close>.\<close>

definition shapeFromJSON :: "string \<Rightarrow> json \<Rightarrow> error + shape option" where
  "shapeFromJSON newId data =
     (let some = (\<lambda>r. case r of Inl e \<Rightarrow> Inl e | Inr s \<Rightarrow> Inr (Some s))
      in if j_type data = ''point'' then some (Point2D_fromJSON newId data)
         else if j_type data = ''line'' then some (Line2D_fromJSON newId data)
         else if j_type data = ''triangle'' then some (Triangle_fromJSON newId data)
         else if j_type data = ''quadrilateral'' then some (Quadrilateral_fromJSON newId data)
         else if j_type data = ''circle'' then some (Circle_fromJSON newId data)
         else if j_type data = ''polygon'' then some (Polygon_fromJSON newId data)
         else Inr None)"

text \<open>
  Serialising a shape and reading it back: \<^verbatim>\<open>shapeFromJSON(shape.toJSON())\<close>.
\<close>

definition roundTrip :: "string \<Rightarrow> shape \<Rightarrow> error + shape option" where
  "roundTrip newId s = (case toJSON s of Inl e \<Rightarrow> Inl e | Inr data \<Rightarrow> shapeFromJSON newId data)"

section \<open>The manager of auxiliary lines (js/auxiliary.js)\<close>

text \<open>
  An element the user has picked: a vertex or an edge of a shape, by index. The
  shape is held by its id.
\<close>

record element =
  el_type :: string
  el_index :: nat
  el_shape :: string

text \<open>The state of an \<^verbatim>\<open>AuxiliaryLineManager\<close>; the engine's shapes are passed along.\<close>

record manager =
  auxiliaryLines :: "auxiliaryLine list"
  isActive :: bool
  currentMode :: "string option"
  selectedElements :: "element list"
  hoveredElement :: "element option"

text \<open>The state the constructor leaves.\<close>

definition AuxiliaryLineManager_new :: manager where
  "AuxiliaryLineManager_new =
     \<lparr>auxiliaryLines = [], isActive = False, currentMode = None, selectedElements = [],
      hoveredElement = None\<rparr>"

text \<open>The table \<^verbatim>\<open>supportedTypes\<close>, from the type of a shape to construction types.\<close>

definition supportedTypes :: "string \<rightharpoonup> string list" where
  "supportedTypes =
     [''point'' \<mapsto> [],
      ''line'' \<mapsto> [''perpendicular-bisector'', ''extension''],
      ''triangle'' \<mapsto> [''connecting'', ''median'', ''altitude'', ''perpendicular-bisector'',
                         ''angle-bisector'', ''parallel'', ''perpendicular'', ''midline'',
                         ''extension''],
      ''quadrilateral'' \<mapsto> [''connecting'', ''median'', ''altitude'', ''perpendicular-bisector'',
                              ''angle-bisector'', ''parallel'', ''perpendicular'', ''midline'',
                              ''extension''],
      ''circle'' \<mapsto> [],
      ''polygon'' \<mapsto> [''connecting'', ''perpendicular-bisector'', ''angle-bisector'',
                        ''parallel'', ''perpendicular'', ''midline'', ''extension'']]"

text \<open>\<^verbatim>\<open>getAvailableTypes(shape)\<close>: \<open>[]\<close> for no shape and for a type without an entry.\<close>

definition getAvailableTypes :: "shape option \<Rightarrow> string list" where
  "getAvailableTypes s =
     (case s of
        None \<Rightarrow> []
      | Some sh \<Rightarrow> (case supportedTypes (sh_type sh) of None \<Rightarrow> [] | Some ts \<Rightarrow> ts))"

text \<open>
  \<^verbatim>\<open>activate(mode)\<close>, on the shapes of the engine in their order. It returns the
  boolean and the state after the call; the warning it prints is not modelled.
\<close>

definition activate :: "string \<Rightarrow> manager \<Rightarrow> shape list \<Rightarrow> bool \<times> manager" where
  "activate mode mgr shapes =
     (let hasValidShape = list_ex (\<lambda>s. mode \<in> set (getAvailableTypes (Some s))) shapes
      in if \<not> hasValidShape then (False, mgr)
         else (True, mgr\<lparr>isActive := True, currentMode := Some mode,
                          selectedElements := [], hoveredElement := None\<rparr>))"

section \<open>Notions used in the proofs\<close>

text \<open>The signed sum of the shoelace formula, before halving and \<open>Math.abs\<close>.\<close>

definition shoelace :: "rpoint list \<Rightarrow> real" where
  "shoelace ps = (\<Sum>i<length ps. px (ps ! i) * py (ps ! ((i + 1) mod length ps))
                                 - px (ps ! ((i + 1) mod length ps)) * py (ps ! i))"

text \<open>
  The plane similarity \<open>(x, y) \<mapsto> (a x - b y + e, b x + a y + f)\<close>: rotations,
  translations and scalings about a center are all of this form.
\<close>

definition similarity :: "real \<Rightarrow> real \<Rightarrow> real \<Rightarrow> real \<Rightarrow> rpoint \<Rightarrow> rpoint" where
  "similarity a b e f p = Point (a * px p - b * py p + e) (b * px p + a * py p + f)"

text \<open>The vertex number \<open>k\<close> of the regular triangle inscribed in the unit circle.\<close>

definition unitVertex :: "nat \<Rightarrow> rpoint" where
  "unitVertex k = Point (cos (real k * (2 * pi / 3))) (sin (real k * (2 * pi / 3)))"

text \<open>
  The vertex the equilateral solver writes: number \<open>k\<close> on the circle of radius \<open>r\<close>
  around \<open>c\<close>, counted from the angle \<open>t\<close>.
\<close>

definition regenerated :: "real \<Rightarrow> real \<Rightarrow> rpoint \<Rightarrow> nat \<Rightarrow> rpoint" where
  "regenerated r t c k =
     similarity r 0 (px c) (py c) (similarity (cos t) (sin t) 0 0 (unitVertex k))"

text \<open>
  The number \<open>k\<close> as the value of an index key: what
  \<^verbatim>\<open>AuxiliaryLineManager._tryCreateAuxiliaryLine\<close> stores, the index of a picked
  vertex or edge.
\<close>

definition stored :: "nat \<Rightarrow> jsindex" where
  "stored k = Some (Fin (real k))"

text \<open>The value of an index key is one of the numbers \<open>0, 1, 2, ...\<close>\<close>

definition isIndex :: "jsindex \<Rightarrow> bool" where
  "isIndex v = (case v of Some (Fin r) \<Rightarrow> 0 \<le> r \<and> r = of_int \<lfloor>r\<rfloor> | _ \<Rightarrow> False)"

text \<open>The index keys the handler of a construction type reads from \<^verbatim>\<open>params\<close>.\<close>

definition indexKeys :: "string \<Rightarrow> params \<Rightarrow> jsindex list" where
  "indexKeys t ps =
     (if t = ''connecting'' then [vertexIndex1 ps, vertexIndex2 ps]
      else if t = ''median'' \<or> t = ''altitude'' \<or> t = ''angle-bisector'' then [vertexIndex ps]
      else if t = ''perpendicular-bisector'' \<or> t = ''extension'' then [edgeIndex ps]
      else if t = ''parallel'' then [throughVertexIndex ps, parallelToEdgeIndex ps]
      else if t = ''perpendicular'' then [throughVertexIndex ps, perpendicularToEdgeIndex ps]
      else if t = ''midline'' then [edgeIndex1 ps, edgeIndex2 ps]
      else [])"

text \<open>
  A result with both ends: \<^verbatim>\<open>null\<close>, or an object of a handler whose \<open>start\<close> and
  \<open>end\<close> are points.
\<close>

definition wellFormed :: "error + returned \<Rightarrow> bool" where
  "wellFormed r =
     (case r of
        Inr Null \<Rightarrow> True
      | Inr (Endpoints e) \<Rightarrow> ep_start e \<noteq> None \<and> ep_end e \<noteq> None
      | _ \<Rightarrow> False)"

text \<open>The default \<open>{}\<close> of the constructor: no key is there.\<close>

definition noParams :: params where
  "noParams = \<lparr>vertexIndex1 = None, vertexIndex2 = None, vertexIndex = None, edgeIndex = None,
     throughVertexIndex = None, parallelToEdgeIndex = None, perpendicularToEdgeIndex = None,
     edgeIndex1 = None, edgeIndex2 = None, direction = None, extendLength = None\<rparr>"

text \<open>An example of \<^verbatim>\<open>params\<close> with every index key.\<close>

definition someParams :: params where
  "someParams = \<lparr>vertexIndex1 = stored 0, vertexIndex2 = stored 1, vertexIndex = stored 2,
     edgeIndex = stored 0, throughVertexIndex = stored 0, parallelToEdgeIndex = stored 1,
     perpendicularToEdgeIndex = stored 1, edgeIndex1 = stored 0, edgeIndex2 = stored 1,
     direction = None, extendLength = None\<rparr>"

section \<open>Area and perimeter under rotation, translation and scaling\<close>

lemma fold_add_sum:
  "fold (\<lambda>i (a::real). a + f i) [0..<n] a0 = a0 + (\<Sum>i<n. f i)"
  by (induction n) simp_all

lemma sum_cyclic_shift:
  fixes g :: "nat \<Rightarrow> real"
  shows "(\<Sum>i<n. g ((i + 1) mod n)) = (\<Sum>i<n. g i)"
proof (cases n)
  case 0
  then show ?thesis by simp
next
  case (Suc m)
  have "(\<Sum>i<Suc m. g ((i + 1) mod Suc m)) = (\<Sum>i<m. g ((i + 1) mod Suc m)) + g ((m + 1) mod Suc m)"
    by simp
  also have "(\<Sum>i<m. g ((i + 1) mod Suc m)) = (\<Sum>i<m. g (Suc i))"
    by (rule sum.cong) auto
  also have "g ((m + 1) mod Suc m) = g 0" by simp
  also have "(\<Sum>i<m. g (Suc i)) + g 0 = (\<Sum>i<Suc m. g i)"
    by (simp only: sum.lessThan_Suc_shift add.commute)
  finally show ?thesis using Suc by simp
qed

lemma polygonArea_shoelace: "polygonArea ps = \<bar>shoelace ps / 2\<bar>"
proof -
  have "fold (\<lambda>i area. area + px (ps ! i) * py (ps ! ((i + 1) mod length ps))
                          - px (ps ! ((i + 1) mod length ps)) * py (ps ! i)) [0..<length ps] 0
        = fold (\<lambda>i area. area + (px (ps ! i) * py (ps ! ((i + 1) mod length ps))
                          - px (ps ! ((i + 1) mod length ps)) * py (ps ! i))) [0..<length ps] 0"
    by (simp add: algebra_simps)
  then show ?thesis
    by (simp add: polygonArea_def Let_def shoelace_def fold_add_sum)
qed

lemma polygonPerimeter_sum:
  "polygonPerimeter ps = (\<Sum>i<length ps. distanceTo (ps ! i) (ps ! ((i + 1) mod length ps)))"
  by (simp add: polygonPerimeter_def Let_def fold_add_sum)

lemma shoelace_similarity:
  "shoelace (map (similarity a b e f) ps) = (a * a + b * b) * shoelace ps"
proof -
  let ?n = "length ps"
  let ?S = "\<lambda>i. (i + 1) mod ?n"
  let ?u = "\<lambda>i. a * px (ps ! i) - b * py (ps ! i)"
  let ?v = "\<lambda>i. b * px (ps ! i) + a * py (ps ! i)"
  have S: "Suc i mod ?n < ?n" if "i < ?n" for i
  proof -
    from that have "0 < ?n" by (cases ps) simp_all
    then show ?thesis by simp
  qed
  have "shoelace (map (similarity a b e f) ps)
      = (\<Sum>i<?n. (?u i + e) * (?v (?S i) + f) - (?u (?S i) + e) * (?v i + f))"
    unfolding shoelace_def
    by (rule sum.cong) (simp_all add: similarity_def Point_def S)
  also have "\<dots> = (\<Sum>i<?n. (a * a + b * b) * (px (ps ! i) * py (ps ! ?S i) - px (ps ! ?S i) * py (ps ! i))
                        + (f * ?u i - e * ?v i) - (f * ?u (?S i) - e * ?v (?S i)))"
    by (rule sum.cong) (simp_all add: algebra_simps)
  also have "\<dots> = (\<Sum>i<?n. (a * a + b * b) * (px (ps ! i) * py (ps ! ?S i) - px (ps ! ?S i) * py (ps ! i)))
                 + (\<Sum>i<?n. f * ?u i - e * ?v i) - (\<Sum>i<?n. f * ?u (?S i) - e * ?v (?S i))"
    by (simp only: sum.distrib sum_subtractf)
  also have "(\<Sum>i<?n. (a * a + b * b) * (px (ps ! i) * py (ps ! ?S i) - px (ps ! ?S i) * py (ps ! i)))
               = (a * a + b * b) * shoelace ps"
    by (simp only: shoelace_def sum_distrib_left)
  also have "(\<Sum>i<?n. f * ?u (?S i) - e * ?v (?S i)) = (\<Sum>i<?n. f * ?u i - e * ?v i)"
    by (rule sum_cyclic_shift [of "\<lambda>i. f * ?u i - e * ?v i" ?n])
  finally show ?thesis by simp
qed

lemma distanceTo_similarity:
  "distanceTo (similarity a b e f p) (similarity a b e f q) = sqrt (a * a + b * b) * distanceTo p q"
proof -
  have "(a * px q - b * py q + e - (a * px p - b * py p + e)) * (a * px q - b * py q + e - (a * px p - b * py p + e))
      + (b * px q + a * py q + f - (b * px p + a * py p + f)) * (b * px q + a * py q + f - (b * px p + a * py p + f))
      = (a * a + b * b) * ((px q - px p) * (px q - px p) + (py q - py p) * (py q - py p))"
    by (simp add: algebra_simps)
  then show ?thesis
    by (simp add: distanceTo_def similarity_def Point_def Let_def real_sqrt_mult)
qed

lemma rotate_similarity:
  "rotate_points angle center ps =
     (let c = (case center of Some c' \<Rightarrow> c' | None \<Rightarrow> getCenter ps)
      in map (similarity (cos angle) (sin angle)
               (px c - px c * cos angle + py c * sin angle)
               (py c - px c * sin angle - py c * cos angle)) ps)"
  by (simp add: rotate_points_def similarity_def Let_def Point_def algebra_simps)

lemma translate_similarity: "translate dx dy ps = map (similarity 1 0 dx dy) ps"
  by (simp add: translate_def similarity_def)

lemma scale_similarity:
  "scale k center ps =
     (let c = (case center of Some c' \<Rightarrow> c' | None \<Rightarrow> getCenter ps)
      in map (similarity k 0 (px c - px c * k) (py c - py c * k)) ps)"
  by (simp add: scale_def similarity_def Let_def Point_def algebra_simps)

lemma polygonArea_similarity:
  "polygonArea (map (similarity a b e f) ps) = (a * a + b * b) * polygonArea ps"
proof -
  have "0 \<le> a * a + b * b" by simp
  then show ?thesis
    by (simp add: polygonArea_shoelace shoelace_similarity abs_mult del: mult_eq_0_iff)
qed

lemma polygonPerimeter_similarity:
  "polygonPerimeter (map (similarity a b e f) ps) = sqrt (a * a + b * b) * polygonPerimeter ps"
proof -
  have S: "Suc i mod length ps < length ps" if "i < length ps" for i
  proof -
    from that have "0 < length ps" by (cases ps) simp_all
    then show ?thesis by simp
  qed
  have "polygonPerimeter (map (similarity a b e f) ps)
      = (\<Sum>i<length ps. sqrt (a * a + b * b) * distanceTo (ps ! i) (ps ! ((i + 1) mod length ps)))"
    unfolding polygonPerimeter_sum
    by (simp add: S distanceTo_similarity)
  then show ?thesis
    by (simp add: polygonPerimeter_sum sum_distrib_left)
qed

text \<open>
  C6. For every list of points, every angle, every rotation center (also the
  default one, the shape's own center) and every translation offset, rotating all
  points as \<^verbatim>\<open>Shape.rotate\<close> does, or translating all points as
  \<^verbatim>\<open>Shape.translate\<close> does, leaves \<^verbatim>\<open>GeometryUtils.polygonArea\<close> and
  \<^verbatim>\<open>GeometryUtils.polygonPerimeter\<close> unchanged (exact real arithmetic).
\<close>

theorem area_perimeter_rigid_motion:
  "polygonArea (rotate_points angle center points) = polygonArea points
   \<and> polygonPerimeter (rotate_points angle center points) = polygonPerimeter points
   \<and> polygonArea (translate dx dy points) = polygonArea points
   \<and> polygonPerimeter (translate dx dy points) = polygonPerimeter points"
proof -
  have unit: "cos angle * cos angle + sin angle * sin angle = 1"
    using sin_cos_squared_add2 [of angle] by (simp add: power2_eq_square)
  show ?thesis
    by (simp add: rotate_similarity translate_similarity Let_def
          polygonArea_similarity polygonPerimeter_similarity unit)
qed

text \<open>
  C10. For every list of vertices, every positive factor and every scaling center
  (also the default one), after \<^verbatim>\<open>Shape.scale\<close> the perimeter is the factor times
  the perimeter before and the area is the factor squared times the area before
  (exact real arithmetic).
\<close>

theorem scale_area_perimeter:
  assumes "0 < factor"
  shows "polygonPerimeter (scale factor center points) = factor * polygonPerimeter points
         \<and> polygonArea (scale factor center points) = factor\<^sup>2 * polygonArea points"
  using assms
  by (simp add: scale_similarity Let_def polygonArea_similarity polygonPerimeter_similarity
        power2_eq_square)

lemma per4: "polygonPerimeter [Point 0 0, Point 1 0, Point 1 1, Point 0 1] = 4"
  by (simp add: polygonPerimeter_def distanceTo_def Point_def Let_def)

lemma ar4: "polygonArea [Point 0 0, Point 1 0, Point 1 1, Point 0 1] = 1"
  by (simp add: polygonArea_def Point_def Let_def)

theorem scale_area_perimeter_witness:
  "(0::real) < 2
   \<and> polygonPerimeter (scale 2 (Some (Point 0 0)) [Point 0 0, Point 1 0, Point 1 1, Point 0 1]) = 8
   \<and> polygonArea (scale 2 (Some (Point 0 0)) [Point 0 0, Point 1 0, Point 1 1, Point 0 1]) = 4"
  using scale_area_perimeter [of 2 "Some (Point 0 0)" "[Point 0 0, Point 1 0, Point 1 1, Point 0 1]"]
  by (simp add: per4 ar4)

section \<open>The equilateral solver\<close>

lemma sin_120a: "sin (2 * pi / 3) = sqrt 3 / 2"
  using sin_120' by (simp add: mult.commute)

lemma cos_240: "cos (2 * (2 * pi / 3)) = - 1 / 2"
proof -
  have "cos (2 * (2 * pi / 3)) = cos (2 * pi / 3 + 2 * pi / 3)" by simp
  also have "\<dots> = cos (2 * pi / 3) * cos (2 * pi / 3) - sin (2 * pi / 3) * sin (2 * pi / 3)"
    by (rule cos_add)
  also have "\<dots> = - 1 / 2" by (simp add: cos_120 sin_120a)
  finally show ?thesis .
qed

lemma sin_240: "sin (2 * (2 * pi / 3)) = - (sqrt 3 / 2)"
proof -
  have "sin (2 * (2 * pi / 3)) = sin (2 * pi / 3 + 2 * pi / 3)" by simp
  also have "\<dots> = sin (2 * pi / 3) * cos (2 * pi / 3) + cos (2 * pi / 3) * sin (2 * pi / 3)"
    by (rule sin_add)
  also have "\<dots> = - (sqrt 3 / 2)" by (simp add: cos_120 sin_120a)
  finally show ?thesis .
qed

lemma unitVertex_0: "unitVertex 0 = Point 1 0"
  by (simp add: unitVertex_def)

lemma unitVertex_1: "unitVertex (Suc 0) = Point (- 1 / 2) (sqrt 3 / 2)"
  by (simp add: unitVertex_def cos_120 sin_120a)

lemma unitVertex_2: "unitVertex 2 = Point (- 1 / 2) (- (sqrt 3 / 2))"
  using cos_240 sin_240 by (simp add: unitVertex_def)

lemma regen_point:
  "Point (cx + r * cos (t + real k * (2 * pi / 3))) (cy + r * sin (t + real k * (2 * pi / 3)))
     = similarity r 0 cx cy (similarity (cos t) (sin t) 0 0 (unitVertex k))"
  by (simp add: similarity_def unitVertex_def Point_def cos_add sin_add algebra_simps)

lemma unit_dists:
  "distanceTo (unitVertex 0) (unitVertex (Suc 0)) = sqrt 3"
  "distanceTo (unitVertex (Suc 0)) (unitVertex 2) = sqrt 3"
  "distanceTo (unitVertex 2) (unitVertex 0) = sqrt 3"
  "distanceTo (unitVertex (Suc 0)) (unitVertex 0) = sqrt 3"
  "distanceTo (unitVertex 2) (unitVertex (Suc 0)) = sqrt 3"
  "distanceTo (unitVertex 0) (unitVertex 2) = sqrt 3"
  by (simp_all add: unitVertex_0 unitVertex_1 unitVertex_2 distanceTo_def Point_def Let_def
        field_simps)


lemma unit_area:
  "polygonArea [unitVertex 0, unitVertex (Suc 0), unitVertex 2] = 3 * sqrt 3 / 4"
  "polygonArea [unitVertex 2, unitVertex 0, unitVertex (Suc 0)] = 3 * sqrt 3 / 4"
  "polygonArea [unitVertex (Suc 0), unitVertex 2, unitVertex 0] = 3 * sqrt 3 / 4"
  by (simp_all add: unitVertex_0 unitVertex_1 unitVertex_2 polygonArea_def Point_def Let_def
        field_simps)

lemma fold_upt_3:
  "fold f [0..<3] s = f 2 (f 1 (f 0 s))"
  by (simp add: numeral_3_eq_3 numeral_2_eq_2)

lemma equilateral_regen:
  assumes len: "length points = 3" and idx: "idx < 3"
    and far: "\<not> distanceTo (points ! idx)
                 (midpoint (points ! ((idx + 1) mod 3)) (points ! ((idx + 2) mod 3))) < 20"
  shows "\<exists>r t c. 40 / 3 \<le> r \<and>
           applyEquilateralConstraint idx points
             = Inr [regenerated r t c ((0 + 3 - idx) mod 3),
                    regenerated r t c ((1 + 3 - idx) mod 3),
                    regenerated r t c ((2 + 3 - idx) mod 3)]"
proof -
  obtain a b c where pts: "points = [a, b, c]"
    using len by (auto simp: length_Suc_conv numeral_eq_Suc)
  define d where "d = points ! idx"
  define m where "m = midpoint (points ! ((idx + 1) mod 3)) (points ! ((idx + 2) mod 3))"
  define h where "h = distanceTo d m"
  define ctr where "ctr = Point (px d + (px m - px d) * (2 / 3)) (py d + (py m - py d) * (2 / 3))"
  define r where "r = distanceTo d ctr"
  define t where "t = atan2 (py d - py ctr) (px d - px ctr)"
  have h20: "20 \<le> h" using far by (simp add: h_def d_def m_def)
  have "r = sqrt ((2 / 3) * (2 / 3) * ((px m - px d) * (px m - px d) + (py m - py d) * (py m - py d)))"
  proof -
    have "(px d + (px m - px d) * (2 / 3) - px d) * (px d + (px m - px d) * (2 / 3) - px d)
          + (py d + (py m - py d) * (2 / 3) - py d) * (py d + (py m - py d) * (2 / 3) - py d)
        = (2 / 3) * (2 / 3) * ((px m - px d) * (px m - px d) + (py m - py d) * (py m - py d))"
      by (simp add: field_simps)
    then show ?thesis
      by (simp add: r_def ctr_def distanceTo_def Let_def Point_def)
  qed
  also have "\<dots> = sqrt ((2 / 3) * (2 / 3))
                    * sqrt ((px m - px d) * (px m - px d) + (py m - py d) * (py m - py d))"
    by (rule real_sqrt_mult)
  also have "sqrt ((2 / 3) * (2 / 3)) = (2 / 3 :: real)"
  proof -
    have "sqrt ((2 / 3) * (2 / 3)) = \<bar>2 / 3 :: real\<bar>" by (rule real_sqrt_abs2)
    also have "\<dots> = 2 / 3" by simp
    finally show ?thesis .
  qed
  also have "sqrt ((px m - px d) * (px m - px d) + (py m - py d) * (py m - py d)) = h"
    by (simp add: h_def distanceTo_def Let_def)
  finally have r: "r = (2 / 3) * h" .
  have rbig: "40 / 3 \<le> r" using h20 r by simp
  have "applyEquilateralConstraint idx points
          = Inr (fold (\<lambda>i pts.
                     pts[i := Point (px ctr + r * cos (t + real ((i + 3 - idx) mod 3) * (2 * pi / 3)))
                                    (py ctr + r * sin (t + real ((i + 3 - idx) mod 3) * (2 * pi / 3)))])
                   [0..<3] points)"
    using len idx far
    by (simp add: applyEquilateralConstraint_def Let_def d_def m_def ctr_def r_def t_def)
  also have "\<dots> = Inr [regenerated r t ctr ((0 + 3 - idx) mod 3),
                       regenerated r t ctr ((1 + 3 - idx) mod 3),
                       regenerated r t ctr ((2 + 3 - idx) mod 3)]"
    by (simp add: fold_upt_3 pts regenerated_def regen_point [symmetric])
  finally show ?thesis using rbig by blast
qed

lemma regenerated_dist:
  "distanceTo (regenerated r t c j) (regenerated r t c k) = \<bar>r\<bar> * distanceTo (unitVertex j) (unitVertex k)"
  by (simp add: regenerated_def distanceTo_similarity)

lemma regenerated_area:
  "polygonArea [regenerated r t c i, regenerated r t c j, regenerated r t c k]
     = r * r * polygonArea [unitVertex i, unitVertex j, unitVertex k]"
proof -
  have "[regenerated r t c i, regenerated r t c j, regenerated r t c k]
      = map (similarity r 0 (px c) (py c))
          (map (similarity (cos t) (sin t) 0 0) [unitVertex i, unitVertex j, unitVertex k])"
    by (simp add: regenerated_def)
  then show ?thesis
    by (simp only: polygonArea_similarity) (simp add: power2_eq_square [symmetric])
qed

lemma getSides_3: "getSides [a, b, c] = [distanceTo a b, distanceTo b c, distanceTo c a]"
  by (simp add: getSides_def upt_rec)

lemma regenerated_triangle:
  assumes r: "0 < r"
    and ij: "distanceTo (unitVertex i) (unitVertex j) = sqrt 3"
    and jk: "distanceTo (unitVertex j) (unitVertex k) = sqrt 3"
    and ki: "distanceTo (unitVertex k) (unitVertex i) = sqrt 3"
    and ar: "polygonArea [unitVertex i, unitVertex j, unitVertex k] = 3 * sqrt 3 / 4"
  shows "getSides [regenerated r t c i, regenerated r t c j, regenerated r t c k]
           = [r * sqrt 3, r * sqrt 3, r * sqrt 3]
         \<and> polygonArea [regenerated r t c i, regenerated r t c j, regenerated r t c k]
           = sqrt 3 / 4 * (r * sqrt 3)\<^sup>2"
proof -
  have sq: "sqrt 3 / 4 * (r * sqrt 3)\<^sup>2 = r * r * (3 * sqrt 3 / 4)"
    by (simp add: power2_eq_square algebra_simps)
  have rabs: "\<bar>r\<bar> = r" using r by simp
  show ?thesis
    by (simp only: getSides_3 regenerated_dist regenerated_area ij jk ki ar rabs sq)
qed


lemma equilateral_restored:
  assumes len: "length points = 3" and idx: "idx < 3"
    and far: "\<not> distanceTo (points ! idx)
                 (midpoint (points ! ((idx + 1) mod 3)) (points ! ((idx + 2) mod 3))) < 20"
  shows "\<exists>points' s. applyEquilateralConstraint idx points = Inr points'
           \<and> 0 < s \<and> getSides points' = [s, s, s]
           \<and> polygonArea points' = sqrt 3 / 4 * s\<^sup>2"
proof -
  from equilateral_regen [OF len idx far] obtain r t c where
    r: "40 / 3 \<le> r" and
    res: "applyEquilateralConstraint idx points
             = Inr [regenerated r t c ((0 + 3 - idx) mod 3),
                    regenerated r t c ((1 + 3 - idx) mod 3),
                    regenerated r t c ((2 + 3 - idx) mod 3)]"
    by blast
  have rpos: "0 < r" using r by simp
  define i where "i = (0 + 3 - idx) mod 3"
  define j where "j = (1 + 3 - idx) mod 3"
  define k where "k = (2 + 3 - idx) mod 3"
  from idx have "idx = 0 \<or> idx = 1 \<or> idx = 2" by arith
  then have ijk: "(i = 0 \<and> j = Suc 0 \<and> k = 2) \<or> (i = 2 \<and> j = 0 \<and> k = Suc 0)
                   \<or> (i = Suc 0 \<and> j = 2 \<and> k = 0)"
    unfolding i_def j_def k_def by auto
  have "getSides [regenerated r t c i, regenerated r t c j, regenerated r t c k]
           = [r * sqrt 3, r * sqrt 3, r * sqrt 3]
         \<and> polygonArea [regenerated r t c i, regenerated r t c j, regenerated r t c k]
           = sqrt 3 / 4 * (r * sqrt 3)\<^sup>2"
    using ijk
  proof (elim disjE conjE)
    assume "i = 0" "j = Suc 0" "k = 2"
    then show ?thesis
      using regenerated_triangle [OF rpos unit_dists(1) unit_dists(2) unit_dists(3) unit_area(1)]
      by simp
  next
    assume "i = 2" "j = 0" "k = Suc 0"
    then show ?thesis
      using regenerated_triangle [OF rpos unit_dists(3) unit_dists(1) unit_dists(2) unit_area(2)]
      by simp
  next
    assume "i = Suc 0" "j = 2" "k = 0"
    then show ?thesis
      using regenerated_triangle [OF rpos unit_dists(2) unit_dists(3) unit_dists(1) unit_area(3)]
      by simp
  qed
  moreover have "0 < r * sqrt 3" using rpos by simp
  moreover note res [folded i_def j_def k_def]
  ultimately show ?thesis by blast
qed

lemma cos_150: "cos (5 * pi / 6) = - (sqrt 3 / 2)"
proof -
  have "5 * pi / 6 = pi - pi / 6" by simp
  then show ?thesis by (simp only: cos_pi_minus cos_30)
qed

lemma sin_150: "sin (5 * pi / 6) = 1 / 2"
proof -
  have "5 * pi / 6 = pi - pi / 6" by simp
  then show ?thesis by (simp only: sin_pi_minus sin_30)
qed

lemma Triangle_default_points_eq:
  "Triangle_default_points
     = [Point 250 100, Point (250 + 50 * sqrt 3) 250, Point (250 - 50 * sqrt 3) 250]"
  by (simp add: Triangle_default_points_def regularPolygonPoints_def upt_rec Point_def
        cos_30 sin_30 cos_150 sin_150)

lemma dragged_far:
  "\<not> distanceTo (Point 400 200)
        (midpoint (Point (250 + 50 * sqrt 3) 250) (Point (250 - 50 * sqrt 3) 250)) < 20"
proof -
  have "midpoint (Point (250 + 50 * sqrt 3) 250) (Point (250 - 50 * sqrt 3) 250) = Point 250 250"
    by (simp add: midpoint_def Point_def)
  moreover have "distanceTo (Point 400 200) (Point 250 250) = sqrt 25000"
    by (simp add: distanceTo_def Point_def Let_def)
  moreover have "20 \<le> sqrt 25000"
    by (rule real_le_rsqrt) simp
  ultimately show ?thesis by simp
qed


text \<open>
  C2. The default equilateral triangle (circle of radius 100 around \<open>(250, 200)\<close>),
  vertex 0 set to \<open>(400, 200)\<close>, then \<^verbatim>\<open>applyConstraints(0)\<close>: the call returns
  normally, the three side lengths of \<^verbatim>\<open>getSides\<close> are positive and equal (exactly,
  hence within the relative tolerance \<open>10\<^sup>-\<^sup>6\<close>), and the shoelace area is
  \<open>\<surd>3/4\<close> times the side squared (exactly, hence within 1 percent).
\<close>

theorem equilateral_default_drag:
  "case Triangle_applyConstraints ''equilateral'' 0 (Triangle_default_points[0 := Point 400 200]) of
     Inl e \<Rightarrow> False
   | Inr points' \<Rightarrow>
       (case getSides points' of
          [a, b, c] \<Rightarrow>
             0 < a \<and> a = b \<and> b = c
           \<and> \<bar>a - b\<bar> \<le> 1 / 10 ^ 6 * a \<and> \<bar>b - c\<bar> \<le> 1 / 10 ^ 6 * b \<and> \<bar>c - a\<bar> \<le> 1 / 10 ^ 6 * c
           \<and> polygonArea points' = sqrt 3 / 4 * a\<^sup>2
           \<and> \<bar>polygonArea points' - sqrt 3 / 4 * a\<^sup>2\<bar> \<le> 1 / 100 * (sqrt 3 / 4 * a\<^sup>2)
        | _ \<Rightarrow> False)"
proof -
  define pts where "pts = [Point 400 200, Point (250 + 50 * sqrt 3) 250, Point (250 - 50 * sqrt 3) 250]"
  have pts: "Triangle_default_points[0 := Point 400 200] = pts"
    by (simp add: Triangle_default_points_eq pts_def)
  have len: "length pts = 3" by (simp add: pts_def)
  have far: "\<not> distanceTo (pts ! 0) (midpoint (pts ! ((0 + 1) mod 3)) (pts ! ((0 + 2) mod 3))) < 20"
    using dragged_far by (simp add: pts_def)
  from equilateral_restored [OF len _ far] obtain points' s where
    res: "applyEquilateralConstraint 0 pts = Inr points'" and s: "0 < s"
    and sides: "getSides points' = [s, s, s]"
    and area: "polygonArea points' = sqrt 3 / 4 * s\<^sup>2"
    by auto
  show ?thesis
    unfolding pts using s
    by (simp add: Triangle_applyConstraints_def res sides area)
qed

section \<open>The square and the right-triangle solver on a collapsed shape\<close>

text \<open>
  On four vertices with finite coordinates, and with the dragged vertex away from
  the opposite one, the square solver writes finite coordinates: in exact
  arithmetic \<open>ndx * dist\<close> is \<open>dx\<close> again, and the three other vertices are the
  dragged vertex turned about the midpoint of the diagonal by a half and by a
  quarter turn either way.
\<close>

lemma square_on_finite_points:
  assumes len: "length points = 4" and idx: "idx < 4"
    and ne: "points ! idx \<noteq> points ! ((idx + 2) mod 4)"
  shows "applySquareConstraint idx (map finite_point points)
           = Inr (map finite_point
               (let center = midpoint (points ! idx) (points ! ((idx + 2) mod 4));
                    dx = px (points ! idx) - px center;
                    dy = py (points ! idx) - py center
                in points[(idx + 2) mod 4 := Point (px center - dx) (py center - dy),
                          (idx + 1) mod 4 := Point (px center - dy) (py center + dx),
                          (idx + 3) mod 4 := Point (px center + dy) (py center - dx)]))"
proof -
  obtain a b c d where pts: "points = [a, b, c, d]"
    using len by (auto simp: length_Suc_conv numeral_eq_Suc)
  have pos: "0 < sqrt (x * x + y * y)" if "x \<noteq> 0 \<or> y \<noteq> 0" for x y :: real
    using that by (metis add.commute add_pos_nonneg not_real_square_gt_zero real_sqrt_gt_zero zero_le_square)
  have half: "(p - (p + q) / 2 \<noteq> 0) = (p \<noteq> q)" for p q :: real
    by (auto simp: field_simps)
  from idx have "idx = 0 \<or> idx = 1 \<or> idx = 2 \<or> idx = 3" by arith
  then show ?thesis
  proof (elim disjE)
    assume i: "idx = 0"
    with ne pts have "a \<noteq> c" by simp
    then have neq: "px a \<noteq> px c \<or> py a \<noteq> py c" by (cases a, cases c) auto
    then have "px a - (px a + px c) / 2 \<noteq> 0 \<or> py a - (py a + py c) / 2 \<noteq> 0"
      by (simp add: half)
    from pos [OF this] neq show ?thesis
      by (simp add: i pts applySquareConstraint_def Let_def finite_point_def jmidpoint_def
            jsub_def midpoint_def Point_def)
         (auto simp: field_simps)
  next
    assume i: "idx = 1"
    with ne pts have "b \<noteq> d" by simp
    then have neq: "px b \<noteq> px d \<or> py b \<noteq> py d" by (cases b, cases d) auto
    then have "px b - (px b + px d) / 2 \<noteq> 0 \<or> py b - (py b + py d) / 2 \<noteq> 0"
      by (simp add: half)
    from pos [OF this] neq show ?thesis
      by (simp add: i pts applySquareConstraint_def Let_def finite_point_def jmidpoint_def
            jsub_def midpoint_def Point_def)
         (auto simp: field_simps)
  next
    assume i: "idx = 2"
    with ne pts have "c \<noteq> a" by simp
    then have neq: "px c \<noteq> px a \<or> py c \<noteq> py a" by (cases a, cases c) auto
    then have "px c - (px c + px a) / 2 \<noteq> 0 \<or> py c - (py c + py a) / 2 \<noteq> 0"
      by (simp add: half)
    from pos [OF this] neq show ?thesis
      by (simp add: i pts applySquareConstraint_def Let_def finite_point_def jmidpoint_def
            jsub_def midpoint_def Point_def)
         (auto simp: field_simps)
  next
    assume i: "idx = 3"
    with ne pts have "d \<noteq> b" by simp
    then have neq: "px d \<noteq> px b \<or> py d \<noteq> py b" by (cases b, cases d) auto
    then have "px d - (px d + px b) / 2 \<noteq> 0 \<or> py d - (py d + py b) / 2 \<noteq> 0"
      by (simp add: half)
    from pos [OF this] neq show ?thesis
      by (simp add: i pts applySquareConstraint_def Let_def finite_point_def jmidpoint_def
            jsub_def midpoint_def Point_def)
         (auto simp: field_simps)
  qed
qed

text \<open>
  C1. The claim is that a solver which would have to divide by a length of zero
  returns without a write and without NaN. The code does otherwise in the two
  cases the claim names. The default square with vertex 0 dragged onto vertex 2,
  at \<open>(150, 300)\<close>: the dragged vertex is the midpoint of the diagonal, \<open>dist\<close> is
  \<open>0\<close>, \<open>dx / dist\<close> is \<open>0 / 0\<close>, and the three other vertices get the coordinates
  NaN. A right triangle whose vertex 0 was dragged onto vertex 1: the first leg
  has length zero, \<^verbatim>\<open>normalize\<close> returns the zero vector, nothing is NaN, but
  vertex 2 is written and moved onto vertex 0.
\<close>

theorem square_right_degenerate:
  "applySquareConstraint 0 (map finite_point (square_default_points[0 := Point 150 300]))
     = Inr [\<lparr>px = Fin 150, py = Fin 300\<rparr>, \<lparr>px = NaN, py = NaN\<rparr>,
            \<lparr>px = NaN, py = NaN\<rparr>, \<lparr>px = NaN, py = NaN\<rparr>]
   \<and> applyRightConstraint 0 [Point 200 100, Point 200 100, Point 100 200]
     = Inr [Point 200 100, Point 200 100, Point 200 100]"
proof -
  have "applySquareConstraint 0 (map finite_point (square_default_points[0 := Point 150 300]))
     = Inr [\<lparr>px = Fin 150, py = Fin 300\<rparr>, \<lparr>px = NaN, py = NaN\<rparr>,
            \<lparr>px = NaN, py = NaN\<rparr>, \<lparr>px = NaN, py = NaN\<rparr>]"
    by (simp add: applySquareConstraint_def square_default_points_def finite_point_def Point_def
          jmidpoint_def jsub_def Let_def)
  moreover have "applyRightConstraint 0 [Point 200 100, Point 200 100, Point 100 200]
     = Inr [Point 200 100, Point 200 100, Point 200 100]"
    by (simp add: applyRightConstraint_def Let_def fromPoints_def Vector_def normalize_vector_def
          vlength_def Point_def)
  ultimately show ?thesis by simp
qed

section \<open>Frame of the parallelogram solver\<close>

lemma mod4_cases: "(k::nat) < 4 \<Longrightarrow> k = 0 \<or> k = 1 \<or> k = 2 \<or> k = 3"
  by arith

text \<open>
  C8. On a quadrilateral (four vertices) and for every dragged index 0..3, the
  parallelogram solver returns normally, keeps the four vertices, and changes
  only the vertex at \<open>(idx + 3) mod 4\<close>, which becomes the reflection of the vertex
  at \<open>(idx + 1) mod 4\<close> through the midpoint of the dragged vertex and its
  opposite; the dragged vertex, the opposite one and the one at \<open>(idx + 1) mod 4\<close>
  keep their coordinates.
\<close>

theorem parallelogram_frame:
  assumes "length points = 4" and "idx < 4"
  shows "\<exists>points'. applyParallelogramConstraint idx points = Inr points'
           \<and> length points' = 4
           \<and> points' ! idx = points ! idx
           \<and> points' ! ((idx + 2) mod 4) = points ! ((idx + 2) mod 4)
           \<and> points' ! ((idx + 1) mod 4) = points ! ((idx + 1) mod 4)
           \<and> (\<forall>i < 4. i \<noteq> (idx + 3) mod 4 \<longrightarrow> points' ! i = points ! i)
           \<and> points' ! ((idx + 3) mod 4) =
               Point (px (points ! idx) + px (points ! ((idx + 2) mod 4))
                        - px (points ! ((idx + 1) mod 4)))
                     (py (points ! idx) + py (points ! ((idx + 2) mod 4))
                        - py (points ! ((idx + 1) mod 4)))"
proof -
  from assms(2) have "idx = 0 \<or> idx = 1 \<or> idx = 2 \<or> idx = 3"
    by (rule mod4_cases)
  then show ?thesis
    using assms(1)
    by (auto simp: applyParallelogramConstraint_def Let_def midpoint_def Point_def)
qed

theorem parallelogram_frame_witness:
  "\<exists>points'. applyParallelogramConstraint 0 [Point 3 0, Point 4 2, Point 1 2, Point 9 9]
                = Inr points'
     \<and> length points' = 4 \<and> points' ! 0 = Point 3 0 \<and> points' ! 2 = Point 1 2
     \<and> points' ! 1 = Point 4 2 \<and> points' ! 3 = Point 0 0"
  using parallelogram_frame [of "[Point 3 0, Point 4 2, Point 1 2, Point 9 9]" 0]
  by (auto simp: Point_def)

section \<open>The trapezoid solver\<close>

text \<open>
  C4 (as amended). On a trapezoid, after a drag of vertex 2 or 3 with a bottom edge
  (vertex 3 to vertex 2) of positive length, the solver returns normally and
  leaves the vertices 2 and 3 alone; the top edge (vertex 0 to vertex 1) keeps its
  midpoint and its own length, and is parallel to the bottom edge and points the
  same way: \<open>dcLen * (p1' - p0') = abLen * (p2 - p3)\<close>. It is not made as long as
  the bottom edge.
\<close>

theorem trapezoid_top_edge:
  assumes len: "length points = 4" and idx: "2 \<le> idx"
    and ne: "points ! 2 \<noteq> points ! 3"
  shows "case applyTrapezoidConstraint idx points of
           Inl e \<Rightarrow> False
         | Inr points' \<Rightarrow>
             length points' = 4 \<and> points' ! 2 = points ! 2 \<and> points' ! 3 = points ! 3
           \<and> midpoint (points' ! 0) (points' ! 1) = midpoint (points ! 0) (points ! 1)
           \<and> distanceTo (points' ! 0) (points' ! 1) = distanceTo (points ! 0) (points ! 1)
           \<and> (px (points' ! 1) - px (points' ! 0)) * (py (points ! 2) - py (points ! 3))
               - (py (points' ! 1) - py (points' ! 0)) * (px (points ! 2) - px (points ! 3)) = 0
           \<and> distanceTo (points ! 3) (points ! 2) * (px (points' ! 1) - px (points' ! 0))
               = distanceTo (points ! 0) (points ! 1) * (px (points ! 2) - px (points ! 3))
           \<and> distanceTo (points ! 3) (points ! 2) * (py (points' ! 1) - py (points' ! 0))
               = distanceTo (points ! 0) (points ! 1) * (py (points ! 2) - py (points ! 3))"
proof -
  obtain a b c d where pts: "points = [a, b, c, d]"
    using len by (auto simp: length_Suc_conv numeral_eq_Suc)
  define dx where "dx = px c - px d"
  define dy where "dy = py c - py d"
  define L where "L = sqrt (dx * dx + dy * dy)"
  define l where "l = distanceTo a b"
  define p0 where "p0 = Point (px (midpoint a b) - dx / L * l / 2) (py (midpoint a b) - dy / L * l / 2)"
  define p1 where "p1 = Point (px (midpoint a b) + dx / L * l / 2) (py (midpoint a b) + dy / L * l / 2)"
  have "c \<noteq> d" using ne pts by simp
  then have "dx \<noteq> 0 \<or> dy \<noteq> 0"
    unfolding dx_def dy_def by (cases c, cases d) auto
  then have pos: "dx * dx + dy * dy > 0"
    by (metis add.commute add_pos_nonneg not_real_square_gt_zero zero_le_square)
  then have Lpos: "L > 0" unfolding L_def by simp
  have LL: "L * L = dx * dx + dy * dy"
    unfolding L_def using pos by (simp add: less_imp_le)
  have l0: "0 \<le> l" unfolding l_def distanceTo_def by (simp add: Let_def)
  have res: "applyTrapezoidConstraint idx [a, b, c, d] = Inr [p0, p1, c, d]"
    using idx Lpos
    by (simp add: applyTrapezoidConstraint_def Let_def Vector_def dx_def dy_def L_def l_def
          p0_def p1_def)
  have mid: "midpoint p0 p1 = midpoint a b"
    by (simp add: midpoint_def Point_def p0_def p1_def)
  have "(dx / L * l) * (dx / L * l) + (dy / L * l) * (dy / L * l)
          = l * l * ((dx * dx + dy * dy) / (L * L))"
    using Lpos by (simp add: field_simps)
  also have "\<dots> = l * l"
  proof -
    have "(dx * dx + dy * dy) / (L * L) = 1" using Lpos by (simp add: LL [symmetric])
    then show ?thesis by (simp only: mult_1_right)
  qed
  finally have sq: "(dx / L * l) * (dx / L * l) + (dy / L * l) * (dy / L * l) = l * l" .
  have "distanceTo p0 p1 = sqrt ((dx / L * l) * (dx / L * l) + (dy / L * l) * (dy / L * l))"
    by (simp add: distanceTo_def Point_def Let_def field_simps p0_def p1_def)
  also have "\<dots> = l" using sq l0 by simp
  finally have dist: "distanceTo p0 p1 = distanceTo a b" by (simp add: l_def)
  have Ld: "distanceTo d c = L"
    by (simp add: distanceTo_def Let_def L_def dx_def dy_def)
  have par: "(px p1 - px p0) * (py c - py d) - (py p1 - py p0) * (px c - px d) = 0"
    by (simp add: Point_def field_simps p0_def p1_def dx_def dy_def)
  have sx: "distanceTo d c * (px p1 - px p0) = distanceTo a b * (px c - px d)"
    unfolding Ld using Lpos by (simp add: Point_def field_simps p0_def p1_def dx_def l_def)
  have sy: "distanceTo d c * (py p1 - py p0) = distanceTo a b * (py c - py d)"
    unfolding Ld using Lpos by (simp add: Point_def field_simps p0_def p1_def dy_def l_def)
  show ?thesis
    unfolding pts using mid dist par sx sy by (simp add: res)
qed

theorem trapezoid_top_edge_witness:
  "length [Point 1 1, Point 1 3, Point 6 8, Point 0 0] = 4 \<and> (2::nat) \<le> 3
   \<and> applyTrapezoidConstraint 3 [Point 1 1, Point 1 3, Point 6 8, Point 0 0]
       = Inr [Point (2 / 5) (6 / 5), Point (8 / 5) (14 / 5), Point 6 8, Point 0 0]
   \<and> (case applyTrapezoidConstraint 3 [Point 1 1, Point 1 3, Point 6 8, Point 0 0] of
        Inl e \<Rightarrow> False
      | Inr points' \<Rightarrow>
          midpoint (points' ! 0) (points' ! 1) = Point 1 2
        \<and> distanceTo (points' ! 0) (points' ! 1) = 2)"
proof -
  have d: "distanceTo (Point 1 1) (Point 1 3) = 2"
    by (simp add: distanceTo_def Point_def Let_def)
  have m: "midpoint (Point 1 1) (Point 1 3) = Point 1 2"
    by (simp add: midpoint_def Point_def)
  have s: "sqrt 100 = 10"
    using real_sqrt_abs2 [of 10] by simp
  have r: "applyTrapezoidConstraint 3 [Point 1 1, Point 1 3, Point 6 8, Point 0 0]
       = Inr [Point (2 / 5) (6 / 5), Point (8 / 5) (14 / 5), Point 6 8, Point 0 0]"
    by (simp add: applyTrapezoidConstraint_def Let_def Vector_def d m s) (simp add: Point_def)
  show ?thesis
    using trapezoid_top_edge [of "[Point 1 1, Point 1 3, Point 6 8, Point 0 0]" 3]
    by (simp add: r d m) (simp add: Point_def)
qed

text \<open>
  The claim as stated fails: on the trapezoid \<open>(0,0), (2,0), (4,3), (0,3)\<close> with
  vertex 2 dragged, the solver leaves every vertex where it is, and the top edge
  has length 2 while the bottom edge has length 4.
\<close>

theorem trapezoid_congruent_counterexample:
  "applyTrapezoidConstraint 2 [Point 0 0, Point 2 0, Point 4 3, Point 0 3]
     = Inr [Point 0 0, Point 2 0, Point 4 3, Point 0 3]
   \<and> distanceTo (Point 0 0) (Point 2 0) = 2
   \<and> distanceTo (Point 0 3) (Point 4 3) = 4
   \<and> distanceTo (Point 0 0) (Point 2 0) \<noteq> distanceTo (Point 0 3) (Point 4 3)"
  by (simp add: applyTrapezoidConstraint_def Let_def Vector_def Point_def midpoint_def
        distanceTo_def)

section \<open>Index keys that hold an index\<close>

lemma bindE_Inr [simp]: "bindE (Inr v) f = f v"
  by (simp add: bindE_def)

lemma bindE_Inl [simp]: "bindE (Inl e) f = Inl e"
  by (simp add: bindE_def)

lemma deref_simps [simp]: "deref (Some p) = Inr p" "deref None = Inl TypeError"
  by (simp_all add: deref_def)

lemma orNull_simps [simp]:
  "orNull (Inl e) = Inl e" "orNull (Inr None) = Inr Null" "orNull (Inr (Some x)) = Inr (Endpoints x)"
  by (simp_all add: orNull_def)

lemma bindE_pointAt: "i < length points \<Longrightarrow> bindE (pointAt points i) f = f (points ! i)"
  by (simp add: pointAt_def)

lemma jsGe_stored [simp]: "jsGe (stored k) n = (n \<le> k)"
  by (simp add: stored_def)

lemma plusNumber_stored:
  "plusNumber (stored k) 1 = Fin (real (k + 1))"
  "plusNumber (stored k) 2 = Fin (real (k + 2))"
  "plusNumber (stored k) (real n) = Fin (real (k + n))"
  by (simp_all add: plusNumber_def stored_def)

lemma jsub_one: "0 < a \<Longrightarrow> jsub (Fin (real a)) (Fin 1) = Fin (real (a - 1))"
  by (simp add: jsub_def of_nat_diff)

lemma jrem_nat: "0 < n \<Longrightarrow> jrem (Fin (real a)) (Fin (real n)) = Fin (real (a mod n))"
proof -
  assume n: "0 < n"
  have q: "\<lfloor>real a / real n\<rfloor> = int (a div n)"
    by (rule floor_divide_of_nat_eq)
  have "real a - real n * real (a div n) = real (a mod n)"
    by (metis add_diff_cancel_left' mult_div_mod_eq of_nat_add of_nat_mult)
  then show ?thesis
    using n by (simp add: q)
qed

lemma elemAt_nat:
  "elemAt points (Some (Fin (real k))) = (if k < length points then Some (points ! k) else None)"
  by (simp add: elemAt_def)

lemma elemAt_stored:
  "elemAt points (stored k) = (if k < length points then Some (points ! k) else None)"
  by (simp add: stored_def elemAt_nat)

lemma isIndex_stored: "isIndex v \<Longrightarrow> \<exists>k. v = stored k"
proof -
  assume v: "isIndex v"
  then obtain r where r: "v = Some (Fin r)" "0 \<le> r" "r = of_int \<lfloor>r\<rfloor>"
    by (auto simp: isIndex_def split: option.splits jsnum.splits)
  have "0 \<le> \<lfloor>r\<rfloor>"
    using r(2) by simp
  then have "real (nat \<lfloor>r\<rfloor>) = of_int \<lfloor>r\<rfloor>"
    by simp
  then have "v = stored (nat \<lfloor>r\<rfloor>)"
    using r(1,3) by (simp add: stored_def)
  then show ?thesis ..
qed

lemma isIndex_stored_iff [simp]: "isIndex (stored k)"
  by (simp add: isIndex_def stored_def)

lemma jrem_plus:
  assumes n: "0 < n"
  shows "jrem (plusNumber (stored k) 1) (Fin (real n)) = Fin (real ((k + 1) mod n))"
    and "jrem (plusNumber (stored k) 2) (Fin (real n)) = Fin (real ((k + 2) mod n))"
    and "jrem (jsub (plusNumber (stored k) (real n)) (Fin 1)) (Fin (real n))
           = Fin (real ((k + n - 1) mod n))"
proof -
  show "jrem (plusNumber (stored k) 1) (Fin (real n)) = Fin (real ((k + 1) mod n))"
    unfolding plusNumber_stored by (rule jrem_nat [OF n])
  show "jrem (plusNumber (stored k) 2) (Fin (real n)) = Fin (real ((k + 2) mod n))"
    unfolding plusNumber_stored by (rule jrem_nat [OF n])
  have "0 < k + n" using n by simp
  then have "jsub (Fin (real (k + n))) (Fin 1) = Fin (real (k + n - 1))"
    by (rule jsub_one)
  then show "jrem (jsub (plusNumber (stored k) (real n)) (Fin 1)) (Fin (real n))
           = Fin (real ((k + n - 1) mod n))"
    unfolding plusNumber_stored by (simp only: jrem_nat [OF n])
qed

lemma mod_in_range: "i < n \<Longrightarrow> (k::nat) mod n < n"
  by (cases n) simp_all

lemma read_next:
  assumes n: "0 < length points"
  shows "elemAt points (Some (jrem (plusNumber (stored k) 1) (Fin (real (length points)))))
           = Some (points ! ((k + 1) mod length points))"
    and "elemAt points (Some (jrem (plusNumber (stored k) 2) (Fin (real (length points)))))
           = Some (points ! ((k + 2) mod length points))"
    and "elemAt points (Some (jrem (jsub (plusNumber (stored k) (real (length points))) (Fin 1))
                                   (Fin (real (length points)))))
           = Some (points ! ((k + length points - 1) mod length points))"
  unfolding jrem_plus [OF n] elemAt_nat using n by simp_all

lemma read_stored: "k < length points \<Longrightarrow> elemAt points (stored k) = Some (points ! k)"
  by (simp add: elemAt_stored)

lemma midpointOf_Some [simp]: "midpointOf (Some a) (Some b) = Inr (midpoint a b)"
  by (simp add: midpointOf_def)

lemma perpendicularFoot_Some:
  "perpendicularFoot (Some p) (Some s) (Some e) =
     Inr (let dx = px e - px s; dy = py e - py s; len2 = dx * dx + dy * dy
          in if len2 = 0 then s
             else (let t = ((px p - px s) * dx + (py p - py s) * dy) / len2
                   in Point (px s + t * dx) (py s + t * dy)))"
  by (simp add: perpendicularFoot_def Let_def)

lemma bisectorIntersection_returns:
  "\<forall>i \<in> set is. i < length points \<Longrightarrow>
     \<exists>r. bisectorIntersection points vIndex vertex bisectorEnd is = Inr r"
proof (induction "is")
  case Nil
  then show ?case by simp
next
  case (Cons i rest)
  then have i: "i < length points" and rest: "\<forall>j \<in> set rest. j < length points"
    by simp_all
  have i1: "(i + 1) mod length points < length points"
    using i by (rule mod_in_range)
  show ?case
    using Cons.IH [OF rest]
    by (simp add: Let_def bindE_pointAt i i1 [simplified] split: option.split)
qed

lemma connecting_wellFormed:
  assumes "isIndex (vertexIndex1 ps)" "isIndex (vertexIndex2 ps)"
  shows "wellFormed (orNull (getConnectingEndpoints ps points))"
proof -
  obtain a b where "vertexIndex1 ps = stored a" "vertexIndex2 ps = stored b"
    using assms isIndex_stored by blast
  then show ?thesis
    by (simp add: getConnectingEndpoints_def elemAt_stored wellFormed_def)
qed

lemma median_wellFormed:
  assumes "isIndex (vertexIndex ps)"
  shows "wellFormed (orNull (getMedianEndpoints ps points))"
proof -
  obtain k where k: "vertexIndex ps = stored k"
    using assms isIndex_stored by blast
  show ?thesis
  proof (cases "length points \<le> k \<or> length points < 3")
    case True
    then show ?thesis
      using k by (auto simp: getMedianEndpoints_def Let_def wellFormed_def)
  next
    case False
    then have n: "0 < length points" and kn: "k < length points" by auto
    show ?thesis
      using False
      by (simp add: getMedianEndpoints_def Let_def k read_next [OF n] read_stored [OF kn]
            wellFormed_def)
  qed
qed

lemma altitude_wellFormed:
  assumes "isIndex (vertexIndex ps)"
  shows "wellFormed (orNull (getAltitudeEndpoints ps points))"
proof -
  obtain k where k: "vertexIndex ps = stored k"
    using assms isIndex_stored by blast
  show ?thesis
  proof (cases "length points \<le> k \<or> length points < 3")
    case True
    then show ?thesis
      using k by (auto simp: getAltitudeEndpoints_def Let_def wellFormed_def)
  next
    case False
    then have n: "0 < length points" and kn: "k < length points" by auto
    show ?thesis
      using False
      by (simp add: getAltitudeEndpoints_def Let_def k read_next [OF n] read_stored [OF kn]
            perpendicularFoot_Some wellFormed_def)
  qed
qed

lemma perpendicularBisector_wellFormed:
  assumes "isIndex (edgeIndex ps)"
  shows "wellFormed (orNull (getPerpendicularBisectorEndpoints ps points))"
proof -
  obtain k where k: "edgeIndex ps = stored k"
    using assms isIndex_stored by blast
  show ?thesis
  proof (cases "length points \<le> k")
    case True
    then show ?thesis
      using k by (simp add: getPerpendicularBisectorEndpoints_def Let_def wellFormed_def)
  next
    case False
    then have n: "0 < length points" and kn: "k < length points" by auto
    show ?thesis
      using False
      by (simp add: getPerpendicularBisectorEndpoints_def Let_def k read_next [OF n]
            read_stored [OF kn] wellFormed_def)
  qed
qed

lemma extension_wellFormed:
  assumes "isIndex (edgeIndex ps)"
  shows "wellFormed (orNull (getExtensionEndpoints ps points))"
proof -
  obtain k where k: "edgeIndex ps = stored k"
    using assms isIndex_stored by blast
  show ?thesis
  proof (cases "length points \<le> k")
    case True
    then show ?thesis
      using k by (simp add: getExtensionEndpoints_def Let_def wellFormed_def)
  next
    case False
    then have n: "0 < length points" and kn: "k < length points" by auto
    show ?thesis
      using False
      by (simp add: getExtensionEndpoints_def Let_def k read_next [OF n]
            read_stored [OF kn] wellFormed_def)
  qed
qed

lemma parallel_wellFormed:
  assumes "isIndex (throughVertexIndex ps)" "isIndex (parallelToEdgeIndex ps)"
  shows "wellFormed (orNull (getParallelEndpoints ps points))"
proof -
  obtain t e where k: "throughVertexIndex ps = stored t" "parallelToEdgeIndex ps = stored e"
    using assms isIndex_stored by blast
  show ?thesis
  proof (cases "length points \<le> t \<or> length points \<le> e")
    case True
    then show ?thesis
      using k by (auto simp: getParallelEndpoints_def Let_def wellFormed_def)
  next
    case False
    then have n: "0 < length points" and tn: "t < length points" and en: "e < length points"
      by auto
    show ?thesis
      using False
      by (simp add: getParallelEndpoints_def Let_def k read_next [OF n]
            read_stored [OF tn] read_stored [OF en] wellFormed_def)
  qed
qed

lemma perpendicular_wellFormed:
  assumes "isIndex (throughVertexIndex ps)" "isIndex (perpendicularToEdgeIndex ps)"
  shows "wellFormed (orNull (getPerpendicularEndpoints ps points))"
proof -
  obtain t e where k: "throughVertexIndex ps = stored t" "perpendicularToEdgeIndex ps = stored e"
    using assms isIndex_stored by blast
  show ?thesis
  proof (cases "length points \<le> t \<or> length points \<le> e")
    case True
    then show ?thesis
      using k by (auto simp: getPerpendicularEndpoints_def Let_def wellFormed_def)
  next
    case False
    then have n: "0 < length points" and tn: "t < length points" and en: "e < length points"
      by auto
    show ?thesis
      using False
      by (simp add: getPerpendicularEndpoints_def Let_def k read_next [OF n]
            read_stored [OF tn] read_stored [OF en] perpendicularFoot_Some wellFormed_def)
  qed
qed

lemma midline_wellFormed:
  assumes "isIndex (edgeIndex1 ps)" "isIndex (edgeIndex2 ps)"
  shows "wellFormed (orNull (getMidlineEndpoints ps points))"
proof -
  obtain a b where k: "edgeIndex1 ps = stored a" "edgeIndex2 ps = stored b"
    using assms isIndex_stored by blast
  show ?thesis
  proof (cases "length points \<le> a \<or> length points \<le> b")
    case True
    then show ?thesis
      using k by (auto simp: getMidlineEndpoints_def Let_def wellFormed_def)
  next
    case False
    then have n: "0 < length points" and an: "a < length points" and bn: "b < length points"
      by auto
    show ?thesis
      using False
      by (simp add: getMidlineEndpoints_def Let_def k read_next [OF n]
            read_stored [OF an] read_stored [OF bn] wellFormed_def)
  qed
qed

lemma angleBisector_stored:
  assumes k: "vertexIndex ps = stored k" and kn: "k < length points" and n3: "3 \<le> length points"
  shows "\<exists>f. getAngleBisectorEndpoints ps points
               = Inr (Some \<lparr>ep_start = Some (points ! k), ep_end = Some f, ep_marks = [],
                              ep_isRightAngle = False, ep_type = ''ray''\<rparr>)"
proof -
  have n: "0 < length points" using kn by auto
  define vertex where "vertex = points ! k"
  define bisectorEnd where "bisectorEnd =
    (let v1 = normalize_vector (fromPoints vertex (points ! ((k + length points - 1) mod length points)));
         v2 = normalize_vector (fromPoints vertex (points ! ((k + 1) mod length points)));
         bisectorDir = normalize_vector (Vector (vx v1 + vx v2) (vy v1 + vy v2))
     in Point (px vertex + vx bisectorDir * 500) (py vertex + vy bisectorDir * 500))"
  have all: "\<forall>i \<in> set [0..<length points]. i < length points" by simp
  from bisectorIntersection_returns [OF all, of "stored k" vertex bisectorEnd]
  obtain x where x: "bisectorIntersection points (stored k) vertex bisectorEnd [0..<length points] = Inr x"
    by blast
  show ?thesis
    using kn n3 x
    by (simp add: getAngleBisectorEndpoints_def Let_def k read_next [OF n] read_stored [OF kn]
          vertex_def bisectorEnd_def)
qed

lemma angleBisector_wellFormed:
  assumes "isIndex (vertexIndex ps)"
  shows "wellFormed (orNull (getAngleBisectorEndpoints ps points))"
proof -
  obtain k where k: "vertexIndex ps = stored k"
    using assms isIndex_stored by blast
  show ?thesis
  proof (cases "length points \<le> k \<or> length points < 3")
    case True
    then show ?thesis
      using k by (auto simp: getAngleBisectorEndpoints_def Let_def wellFormed_def)
  next
    case False
    then have "\<exists>f. getAngleBisectorEndpoints ps points
               = Inr (Some \<lparr>ep_start = Some (points ! k), ep_end = Some f, ep_marks = [],
                              ep_isRightAngle = False, ep_type = ''ray''\<rparr>)"
      using angleBisector_stored [OF k] by simp
    then show ?thesis
      by (auto simp: wellFormed_def)
  qed
qed

section \<open>What getEndpoints returns\<close>

lemma wellFormed_cases:
  "wellFormed r \<Longrightarrow>
     r = Inr Null \<or> (\<exists>e s f. r = Inr (Endpoints e) \<and> ep_start e = Some s \<and> ep_end e = Some f)"
  by (auto simp: wellFormed_def split: sum.splits returned.splits)

lemma getEndpoints_wellFormed:
  assumes t: "aux_type line \<in> set knownTypes"
    and keys: "\<forall>v \<in> set (indexKeys (aux_type line) (aux_params line)). isIndex v"
  shows "wellFormed (getEndpoints line (Some points))"
proof -
  define t where "t = aux_type line"
  define ps where "ps = aux_params line"
  consider "t = ''connecting''" | "t = ''median''" | "t = ''altitude''"
    | "t = ''perpendicular-bisector''" | "t = ''angle-bisector''" | "t = ''parallel''"
    | "t = ''perpendicular''" | "t = ''midline''" | "t = ''extension''"
    using assms(1) unfolding knownTypes_def t_def by auto
  then show ?thesis
  proof cases
    case 1
    then show ?thesis
      using keys
      by (simp add: getEndpoints_def indexKeys_def t_def [symmetric] ps_def [symmetric]
            connecting_wellFormed)
  next
    case 2
    then show ?thesis
      using keys
      by (simp add: getEndpoints_def indexKeys_def t_def [symmetric] ps_def [symmetric]
            median_wellFormed)
  next
    case 3
    then show ?thesis
      using keys
      by (simp add: getEndpoints_def indexKeys_def t_def [symmetric] ps_def [symmetric]
            altitude_wellFormed)
  next
    case 4
    then show ?thesis
      using keys
      by (simp add: getEndpoints_def indexKeys_def t_def [symmetric] ps_def [symmetric]
            perpendicularBisector_wellFormed)
  next
    case 5
    then show ?thesis
      using keys
      by (simp add: getEndpoints_def indexKeys_def t_def [symmetric] ps_def [symmetric]
            angleBisector_wellFormed)
  next
    case 6
    then show ?thesis
      using keys
      by (simp add: getEndpoints_def indexKeys_def t_def [symmetric] ps_def [symmetric]
            parallel_wellFormed)
  next
    case 7
    then show ?thesis
      using keys
      by (simp add: getEndpoints_def indexKeys_def t_def [symmetric] ps_def [symmetric]
            perpendicular_wellFormed)
  next
    case 8
    then show ?thesis
      using keys
      by (simp add: getEndpoints_def indexKeys_def t_def [symmetric] ps_def [symmetric]
            midline_wellFormed)
  next
    case 9
    then show ?thesis
      using keys
      by (simp add: getEndpoints_def indexKeys_def t_def [symmetric] ps_def [symmetric]
            extension_wellFormed)
  qed
qed

lemma handlers_out_of_range:
  "jsGe (vertexIndex1 ps) (length points) \<or> jsGe (vertexIndex2 ps) (length points)
     \<Longrightarrow> getConnectingEndpoints ps points = Inr None"
  "jsGe (vertexIndex ps) (length points) \<Longrightarrow> getMedianEndpoints ps points = Inr None"
  "jsGe (vertexIndex ps) (length points) \<Longrightarrow> getAltitudeEndpoints ps points = Inr None"
  "jsGe (edgeIndex ps) (length points) \<Longrightarrow> getPerpendicularBisectorEndpoints ps points = Inr None"
  "jsGe (vertexIndex ps) (length points) \<Longrightarrow> getAngleBisectorEndpoints ps points = Inr None"
  "jsGe (throughVertexIndex ps) (length points) \<or> jsGe (parallelToEdgeIndex ps) (length points)
     \<Longrightarrow> getParallelEndpoints ps points = Inr None"
  "jsGe (throughVertexIndex ps) (length points) \<or> jsGe (perpendicularToEdgeIndex ps) (length points)
     \<Longrightarrow> getPerpendicularEndpoints ps points = Inr None"
  "jsGe (edgeIndex1 ps) (length points) \<or> jsGe (edgeIndex2 ps) (length points)
     \<Longrightarrow> getMidlineEndpoints ps points = Inr None"
  "jsGe (edgeIndex ps) (length points) \<Longrightarrow> getExtensionEndpoints ps points = Inr None"
  by (simp_all add: getConnectingEndpoints_def
        getMedianEndpoints_def getAltitudeEndpoints_def getPerpendicularBisectorEndpoints_def
        getAngleBisectorEndpoints_def getParallelEndpoints_def getPerpendicularEndpoints_def
        getMidlineEndpoints_def getExtensionEndpoints_def Let_def)

lemma getEndpoints_out_of_range:
  assumes t: "aux_type line \<in> set knownTypes"
    and v: "v \<in> set (indexKeys (aux_type line) (aux_params line))"
    and far: "jsGe v (length points)"
  shows "getEndpoints line (Some points) = Inr Null"
proof -
  define t where "t = aux_type line"
  define ps where "ps = aux_params line"
  consider "t = ''connecting''" | "t = ''median''" | "t = ''altitude''"
    | "t = ''perpendicular-bisector''" | "t = ''angle-bisector''" | "t = ''parallel''"
    | "t = ''perpendicular''" | "t = ''midline''" | "t = ''extension''"
    using assms(1) unfolding knownTypes_def t_def by auto
  then show ?thesis
  proof cases
    case 1
    then show ?thesis
      using v far
      by (simp add: getEndpoints_def indexKeys_def t_def [symmetric] ps_def [symmetric])
         (auto simp: handlers_out_of_range)
  next
    case 2
    then show ?thesis
      using v far
      by (simp add: getEndpoints_def Let_def indexKeys_def t_def [symmetric]
            ps_def [symmetric] handlers_out_of_range)
  next
    case 3
    then show ?thesis
      using v far
      by (simp add: getEndpoints_def Let_def indexKeys_def t_def [symmetric]
            ps_def [symmetric] handlers_out_of_range)
  next
    case 4
    then show ?thesis
      using v far
      by (simp add: getEndpoints_def Let_def indexKeys_def t_def [symmetric]
            ps_def [symmetric] handlers_out_of_range)
  next
    case 5
    then show ?thesis
      using v far
      by (simp add: getEndpoints_def Let_def indexKeys_def t_def [symmetric]
            ps_def [symmetric] handlers_out_of_range)
  next
    case 6
    then show ?thesis
      using v far
      by (simp add: getEndpoints_def Let_def indexKeys_def t_def [symmetric] ps_def [symmetric])
         (auto simp: handlers_out_of_range)
  next
    case 7
    then show ?thesis
      using v far
      by (simp add: getEndpoints_def Let_def indexKeys_def t_def [symmetric] ps_def [symmetric])
         (auto simp: handlers_out_of_range)
  next
    case 8
    then show ?thesis
      using v far
      by (simp add: getEndpoints_def Let_def indexKeys_def t_def [symmetric] ps_def [symmetric])
         (auto simp: handlers_out_of_range)
  next
    case 9
    then show ?thesis
      using v far
      by (simp add: getEndpoints_def Let_def indexKeys_def t_def [symmetric]
            ps_def [symmetric] handlers_out_of_range)
  qed
qed

lemma getEndpoints_no_member:
  "aux_type line \<notin> set knownTypes \<Longrightarrow> aux_type line \<notin> set inheritedMembers
     \<Longrightarrow> getEndpoints line shapePoints = Inr Null"
  by (cases shapePoints) (simp_all add: getEndpoints_def knownTypes_def Let_def)

text \<open>
  C9 (as amended). \<^verbatim>\<open>AuxiliaryLine.getEndpoints\<close> returns \<^verbatim>\<open>null\<close> whenever the shape
  reference is missing or the shape has no points array; whenever the
  construction type is neither one of the nine known types nor the name of a
  member an object inherits from \<^verbatim>\<open>Object.prototype\<close>; and, for the nine types,
  whenever an index the type reads is a number that is not below the number of
  points the shape has at the call. For the nine types, when every index the type
  reads holds one of the numbers \<open>0, 1, 2, ...\<close>, the call does not throw: it
  returns \<^verbatim>\<open>null\<close> or an object whose \<open>start\<close> and \<open>end\<close> are points.
\<close>

theorem getEndpoints_guarded:
  "getEndpoints line None = Inr Null
   \<and> (aux_type line \<notin> set knownTypes \<and> aux_type line \<notin> set inheritedMembers
      \<longrightarrow> getEndpoints line shapePoints = Inr Null)
   \<and> (aux_type line \<in> set knownTypes
        \<and> (\<exists>v \<in> set (indexKeys (aux_type line) (aux_params line)). jsGe v (length points))
      \<longrightarrow> getEndpoints line (Some points) = Inr Null)
   \<and> (aux_type line \<in> set knownTypes
        \<and> (\<forall>v \<in> set (indexKeys (aux_type line) (aux_params line)). isIndex v)
      \<longrightarrow> getEndpoints line (Some points) = Inr Null
          \<or> (\<exists>e s f. getEndpoints line (Some points) = Inr (Endpoints e)
                \<and> ep_start e = Some s \<and> ep_end e = Some f))"
proof -
  have "getEndpoints line None = Inr Null"
    by (simp add: getEndpoints_def)
  moreover have "aux_type line \<notin> set knownTypes \<and> aux_type line \<notin> set inheritedMembers
      \<longrightarrow> getEndpoints line shapePoints = Inr Null"
    by (simp add: getEndpoints_no_member)
  moreover have "aux_type line \<in> set knownTypes
        \<and> (\<exists>v \<in> set (indexKeys (aux_type line) (aux_params line)). jsGe v (length points))
      \<longrightarrow> getEndpoints line (Some points) = Inr Null"
    using getEndpoints_out_of_range by blast
  moreover have "aux_type line \<in> set knownTypes
        \<and> (\<forall>v \<in> set (indexKeys (aux_type line) (aux_params line)). isIndex v)
      \<longrightarrow> getEndpoints line (Some points) = Inr Null
          \<or> (\<exists>e s f. getEndpoints line (Some points) = Inr (Endpoints e)
                \<and> ep_start e = Some s \<and> ep_end e = Some f)"
    using getEndpoints_wellFormed [of line points] wellFormed_cases by blast
  ultimately show ?thesis by blast
qed

text \<open>
  On the triangle \<open>A(0,0), B(4,0), C(0,3)\<close>: no shape; a type the table has no
  member for; a median from a vertex 3 the triangle does not have; the median
  from \<open>C\<close>, which ends at the midpoint \<open>(2, 0)\<close> of \<open>A\<close> and \<open>B\<close>.
\<close>

theorem getEndpoints_guarded_witness:
  "getEndpoints \<lparr>aux_type = ''median'', aux_params = someParams\<rparr> None = Inr Null
   \<and> getEndpoints \<lparr>aux_type = ''tangent'', aux_params = someParams\<rparr>
         (Some [Point 0 0, Point 4 0, Point 0 3]) = Inr Null
   \<and> getEndpoints \<lparr>aux_type = ''median'', aux_params = someParams\<lparr>vertexIndex := stored 3\<rparr>\<rparr>
         (Some [Point 0 0, Point 4 0, Point 0 3]) = Inr Null
   \<and> (getEndpoints \<lparr>aux_type = ''median'', aux_params = someParams\<rparr>
         (Some [Point 0 0, Point 4 0, Point 0 3]) = Inr Null
      \<or> (\<exists>e s f. getEndpoints \<lparr>aux_type = ''median'', aux_params = someParams\<rparr>
                    (Some [Point 0 0, Point 4 0, Point 0 3]) = Inr (Endpoints e)
                  \<and> ep_start e = Some s \<and> ep_end e = Some f))
   \<and> getEndpoints \<lparr>aux_type = ''median'', aux_params = someParams\<rparr>
         (Some [Point 0 0, Point 4 0, Point 0 3])
       = Inr (Endpoints \<lparr>ep_start = Some (Point 0 3), ep_end = Some (Point 2 0),
                          ep_marks = [(''midpoint'', Point 2 0)],
                          ep_isRightAngle = False, ep_type = ''segment''\<rparr>)"
proof -
  have m: "getEndpoints \<lparr>aux_type = ''median'', aux_params = someParams\<rparr>
         (Some [Point 0 0, Point 4 0, Point 0 3])
       = Inr (Endpoints \<lparr>ep_start = Some (Point 0 3), ep_end = Some (Point 2 0),
                          ep_marks = [(''midpoint'', Point 2 0)],
                          ep_isRightAngle = False, ep_type = ''segment''\<rparr>)"
    by (simp add: getEndpoints_def getMedianEndpoints_def someParams_def Let_def stored_def
          plusNumber_def elemAt_def midpointOf_def midpoint_def Point_def)
  have far: "\<exists>v \<in> set (indexKeys ''median'' (someParams\<lparr>vertexIndex := stored 3\<rparr>)).
               jsGe v (length [Point 0 0, Point 4 0, Point 0 3])"
    by (simp add: indexKeys_def)
  have keys: "\<forall>v \<in> set (indexKeys ''median'' someParams). isIndex v"
    by (simp add: indexKeys_def someParams_def)
  show ?thesis
    using getEndpoints_guarded [of "\<lparr>aux_type = ''median'', aux_params = someParams\<rparr>"
         "Some [Point 0 0, Point 4 0, Point 0 3]" "[Point 0 0, Point 4 0, Point 0 3]"]
      getEndpoints_guarded [of "\<lparr>aux_type = ''tangent'', aux_params = someParams\<rparr>"
         "Some [Point 0 0, Point 4 0, Point 0 3]" "[Point 0 0, Point 4 0, Point 0 3]"]
      getEndpoints_guarded [of "\<lparr>aux_type = ''median'', aux_params = someParams\<lparr>vertexIndex := stored 3\<rparr>\<rparr>"
         "Some [Point 0 0, Point 4 0, Point 0 3]" "[Point 0 0, Point 4 0, Point 0 3]"]
      far keys
    by (simp add: knownTypes_def inheritedMembers_def m)
qed

text \<open>
  The claim as stated fails. On the triangle \<open>A(0,0), B(4,0), C(0,3)\<close>: with the
  \<^verbatim>\<open>params\<close> the constructor takes by default, \<open>{}\<close>, a median reads
  \<open>points[NaN]\<close> and \<^verbatim>\<open>Point.midpoint\<close> throws a TypeError on \<^verbatim>\<open>undefined\<close>; with the
  index \<open>-1\<close>, which is out of range, an altitude throws in the same way and a
  median returns an object whose \<open>start\<close> is \<^verbatim>\<open>undefined\<close>; the type \<^verbatim>\<open>__proto__\<close>,
  none of the nine, throws a TypeError, and the type \<^verbatim>\<open>constructor\<close> returns an
  empty object.
\<close>

theorem getEndpoints_total_counterexample:
  "getEndpoints \<lparr>aux_type = ''median'', aux_params = noParams\<rparr>
     (Some [Point 0 0, Point 4 0, Point 0 3]) = Inl TypeError
   \<and> getEndpoints \<lparr>aux_type = ''altitude'', aux_params = someParams\<lparr>vertexIndex := Some (Fin (- 1))\<rparr>\<rparr>
     (Some [Point 0 0, Point 4 0, Point 0 3]) = Inl TypeError
   \<and> getEndpoints \<lparr>aux_type = ''median'', aux_params = someParams\<lparr>vertexIndex := Some (Fin (- 1))\<rparr>\<rparr>
     (Some [Point 0 0, Point 4 0, Point 0 3])
       = Inr (Endpoints \<lparr>ep_start = None, ep_end = Some (Point 2 0),
                          ep_marks = [(''midpoint'', Point 2 0)],
                          ep_isRightAngle = False, ep_type = ''segment''\<rparr>)
   \<and> getEndpoints \<lparr>aux_type = ''__proto__'', aux_params = someParams\<rparr>
     (Some [Point 0 0, Point 4 0, Point 0 3]) = Inl TypeError
   \<and> getEndpoints \<lparr>aux_type = ''constructor'', aux_params = someParams\<rparr>
     (Some [Point 0 0, Point 4 0, Point 0 3]) = Inr EmptyObject"
  by (simp add: getEndpoints_def getMedianEndpoints_def getAltitudeEndpoints_def someParams_def
        noParams_def Let_def stored_def plusNumber_def elemAt_def midpointOf_def midpoint_def
        perpendicularFoot_def Point_def inheritedMembers_def callInherited_def)

section \<open>Auxiliary lines on a degenerate edge\<close>

lemma bisector_extension_degenerate:
  assumes k: "edgeIndex ps = stored e" and e: "e < length points"
    and d: "points ! ((e + 1) mod length points) = points ! e"
  shows "getEndpoints \<lparr>aux_type = ''perpendicular-bisector'', aux_params = ps\<rparr> (Some points) = Inr Null"
    and "getEndpoints \<lparr>aux_type = ''extension'', aux_params = ps\<rparr> (Some points) = Inr Null"
proof -
  have n: "0 < length points" using e by auto
  show "getEndpoints \<lparr>aux_type = ''perpendicular-bisector'', aux_params = ps\<rparr> (Some points) = Inr Null"
    using e d
    by (simp add: getEndpoints_def getPerpendicularBisectorEndpoints_def Let_def k
          read_next [OF n] read_stored [OF e])
  show "getEndpoints \<lparr>aux_type = ''extension'', aux_params = ps\<rparr> (Some points) = Inr Null"
    using e d
    by (simp add: getEndpoints_def getExtensionEndpoints_def Let_def k
          read_next [OF n] read_stored [OF e])
qed

lemma parallel_degenerate:
  assumes k: "throughVertexIndex ps = stored t" "parallelToEdgeIndex ps = stored e"
    and t: "t < length points" and e: "e < length points"
    and d: "points ! ((e + 1) mod length points) = points ! e"
  shows "getEndpoints \<lparr>aux_type = ''parallel'', aux_params = ps\<rparr> (Some points) = Inr Null"
proof -
  have n: "0 < length points" using e by auto
  show ?thesis
    using t e d
    by (simp add: getEndpoints_def getParallelEndpoints_def Let_def k read_next [OF n]
          read_stored [OF e] read_stored [OF t])
qed

lemma altitude_degenerate:
  assumes k: "vertexIndex ps = stored v" and v: "v < length points" and n3: "3 \<le> length points"
    and d: "points ! ((v + 2) mod length points) = points ! ((v + 1) mod length points)"
  shows "getEndpoints \<lparr>aux_type = ''altitude'', aux_params = ps\<rparr> (Some points)
           = Inr (Endpoints \<lparr>ep_start = Some (points ! v),
                              ep_end = Some (points ! ((v + 1) mod length points)),
                              ep_marks = [(''foot'', points ! ((v + 1) mod length points)),
                                          (''edgeStart'', points ! ((v + 1) mod length points)),
                                          (''edgeEnd'', points ! ((v + 1) mod length points))],
                              ep_isRightAngle = True, ep_type = ''segment''\<rparr>)"
proof -
  have n: "0 < length points" using v by auto
  show ?thesis
    using v n3 d
    by (simp add: getEndpoints_def getAltitudeEndpoints_def Let_def k read_next [OF n]
          read_stored [OF v] perpendicularFoot_Some)
qed

lemma perpendicular_degenerate:
  assumes k: "throughVertexIndex ps = stored t" "perpendicularToEdgeIndex ps = stored e"
    and t: "t < length points" and e: "e < length points"
    and d: "points ! ((e + 1) mod length points) = points ! e"
  shows "getEndpoints \<lparr>aux_type = ''perpendicular'', aux_params = ps\<rparr> (Some points)
           = Inr (Endpoints \<lparr>ep_start = Some (points ! t), ep_end = Some (points ! e),
                              ep_marks = [(''foot'', points ! e)],
                              ep_isRightAngle = True, ep_type = ''segment''\<rparr>)"
proof -
  have n: "0 < length points" using e by auto
  show ?thesis
    using t e d
    by (simp add: getEndpoints_def getPerpendicularEndpoints_def Let_def k read_next [OF n]
          read_stored [OF e] read_stored [OF t] perpendicularFoot_Some)
qed

lemma angleBisector_not_null:
  assumes k: "vertexIndex ps = stored v" and v: "v < length points" and n3: "3 \<le> length points"
  shows "\<exists>x. getEndpoints \<lparr>aux_type = ''angle-bisector'', aux_params = ps\<rparr> (Some points)
               = Inr (Endpoints x)
             \<and> ep_start x = Some (points ! v) \<and> ep_type x = ''ray''"
  using angleBisector_stored [OF k v n3]
  by (auto simp: getEndpoints_def)

text \<open>
  C5 (as amended). On an edge of length zero (its two end vertices have the same
  coordinates) the types perpendicular-bisector, parallel and extension return
  \<^verbatim>\<open>null\<close>. The types altitude and perpendicular do not: the perpendicular-foot
  helper answers with the start vertex of the edge, and the result is the segment
  from the selected vertex to that vertex, flagged as a right angle. Each of
  these results is \<^verbatim>\<open>null\<close> or is made of vertices of the shape. The type
  angle-bisector never returns \<^verbatim>\<open>null\<close> on a shape of at least three vertices,
  also when a neighbour of the vertex lies on the vertex: \<^verbatim>\<open>normalize\<close> answers a
  zero vector with the zero vector, and the result is a ray from the vertex. The
  index keys hold the indices \<open>e\<close>, \<open>t\<close> and \<open>v\<close> of an edge and of vertices of the
  shape.
\<close>

theorem degenerate_edge_endpoints:
  "(edgeIndex ps = stored e \<and> e < length points
      \<and> points ! ((e + 1) mod length points) = points ! e
    \<longrightarrow> getEndpoints \<lparr>aux_type = ''perpendicular-bisector'', aux_params = ps\<rparr> (Some points)
          = Inr Null
      \<and> getEndpoints \<lparr>aux_type = ''extension'', aux_params = ps\<rparr> (Some points) = Inr Null)
   \<and> (throughVertexIndex ps = stored t \<and> parallelToEdgeIndex ps = stored e
      \<and> t < length points \<and> e < length points
      \<and> points ! ((e + 1) mod length points) = points ! e
    \<longrightarrow> getEndpoints \<lparr>aux_type = ''parallel'', aux_params = ps\<rparr> (Some points) = Inr Null)
   \<and> (vertexIndex ps = stored v \<and> v < length points \<and> 3 \<le> length points
      \<and> points ! ((v + 2) mod length points) = points ! ((v + 1) mod length points)
    \<longrightarrow> getEndpoints \<lparr>aux_type = ''altitude'', aux_params = ps\<rparr> (Some points)
          = Inr (Endpoints \<lparr>ep_start = Some (points ! v),
                             ep_end = Some (points ! ((v + 1) mod length points)),
                             ep_marks = [(''foot'', points ! ((v + 1) mod length points)),
                                         (''edgeStart'', points ! ((v + 1) mod length points)),
                                         (''edgeEnd'', points ! ((v + 1) mod length points))],
                             ep_isRightAngle = True, ep_type = ''segment''\<rparr>))
   \<and> (throughVertexIndex ps = stored t \<and> perpendicularToEdgeIndex ps = stored e
      \<and> t < length points \<and> e < length points
      \<and> points ! ((e + 1) mod length points) = points ! e
    \<longrightarrow> getEndpoints \<lparr>aux_type = ''perpendicular'', aux_params = ps\<rparr> (Some points)
          = Inr (Endpoints \<lparr>ep_start = Some (points ! t), ep_end = Some (points ! e),
                             ep_marks = [(''foot'', points ! e)],
                             ep_isRightAngle = True, ep_type = ''segment''\<rparr>))
   \<and> (vertexIndex ps = stored v \<and> v < length points \<and> 3 \<le> length points
    \<longrightarrow> (\<exists>x. getEndpoints \<lparr>aux_type = ''angle-bisector'', aux_params = ps\<rparr> (Some points)
               = Inr (Endpoints x)
             \<and> ep_start x = Some (points ! v) \<and> ep_type x = ''ray''))"
  using bisector_extension_degenerate [of ps e points] parallel_degenerate [of ps t e points]
    altitude_degenerate [of ps v points] perpendicular_degenerate [of ps t e points]
    angleBisector_not_null [of ps v points]
  by blast

text \<open>
  The triangle \<open>(0,0), (1,1), (1,1)\<close> has an edge 1 of length zero. With the
  parameters of \<open>someParams\<close> (edge 1 for a parallel and a perpendicular through
  vertex 0; vertex 2 for an angle bisector), with edge 1 for the bisector and the
  extension, and with vertex 0, whose opposite edge is edge 1, for an altitude:
\<close>

theorem degenerate_edge_endpoints_witness:
  "getEndpoints \<lparr>aux_type = ''perpendicular-bisector'', aux_params = someParams\<lparr>edgeIndex := stored 1\<rparr>\<rparr>
     (Some [Point 0 0, Point 1 1, Point 1 1]) = Inr Null
   \<and> getEndpoints \<lparr>aux_type = ''extension'', aux_params = someParams\<lparr>edgeIndex := stored 1\<rparr>\<rparr>
     (Some [Point 0 0, Point 1 1, Point 1 1]) = Inr Null
   \<and> getEndpoints \<lparr>aux_type = ''parallel'', aux_params = someParams\<rparr>
     (Some [Point 0 0, Point 1 1, Point 1 1]) = Inr Null
   \<and> getEndpoints \<lparr>aux_type = ''altitude'', aux_params = someParams\<lparr>vertexIndex := stored 0\<rparr>\<rparr>
     (Some [Point 0 0, Point 1 1, Point 1 1])
       = Inr (Endpoints \<lparr>ep_start = Some (Point 0 0), ep_end = Some (Point 1 1),
                          ep_marks = [(''foot'', Point 1 1), (''edgeStart'', Point 1 1),
                                      (''edgeEnd'', Point 1 1)],
                          ep_isRightAngle = True, ep_type = ''segment''\<rparr>)
   \<and> getEndpoints \<lparr>aux_type = ''perpendicular'', aux_params = someParams\<rparr>
     (Some [Point 0 0, Point 1 1, Point 1 1])
       = Inr (Endpoints \<lparr>ep_start = Some (Point 0 0), ep_end = Some (Point 1 1),
                          ep_marks = [(''foot'', Point 1 1)],
                          ep_isRightAngle = True, ep_type = ''segment''\<rparr>)
   \<and> (\<exists>x. getEndpoints \<lparr>aux_type = ''angle-bisector'', aux_params = someParams\<rparr>
            (Some [Point 0 0, Point 1 1, Point 1 1]) = Inr (Endpoints x)
          \<and> ep_start x = Some (Point 1 1) \<and> ep_type x = ''ray'')"
  using degenerate_edge_endpoints [of "someParams\<lparr>edgeIndex := stored 1\<rparr>" 1
          "[Point 0 0, Point 1 1, Point 1 1]" 0 2]
    degenerate_edge_endpoints [of someParams 1 "[Point 0 0, Point 1 1, Point 1 1]" 0 2]
    degenerate_edge_endpoints [of "someParams\<lparr>vertexIndex := stored 0\<rparr>" 1
          "[Point 0 0, Point 1 1, Point 1 1]" 0 0]
  by (simp add: someParams_def)

text \<open>
  The claim as stated fails: an altitude from vertex 0 of the triangle
  \<open>(0,0), (1,1), (1,1)\<close>, whose opposite edge has length zero, is not \<^verbatim>\<open>null\<close>.
\<close>

theorem altitude_degenerate_counterexample:
  "getEndpoints \<lparr>aux_type = ''altitude'', aux_params = someParams\<lparr>vertexIndex := stored 0\<rparr>\<rparr>
     (Some [Point 0 0, Point 1 1, Point 1 1])
       = Inr (Endpoints \<lparr>ep_start = Some (Point 0 0), ep_end = Some (Point 1 1),
                          ep_marks = [(''foot'', Point 1 1), (''edgeStart'', Point 1 1),
                                      (''edgeEnd'', Point 1 1)],
                          ep_isRightAngle = True, ep_type = ''segment''\<rparr>)
   \<and> getEndpoints \<lparr>aux_type = ''altitude'', aux_params = someParams\<lparr>vertexIndex := stored 0\<rparr>\<rparr>
     (Some [Point 0 0, Point 1 1, Point 1 1]) \<noteq> Inr Null"
  by (simp add: getEndpoints_def getAltitudeEndpoints_def someParams_def Let_def stored_def
        plusNumber_def elemAt_def perpendicularFoot_def Point_def)

section \<open>Activation of a construction\<close>

text \<open>
  C7. When the only shape of the engine is a circle, \<^verbatim>\<open>activate('altitude')\<close> returns
  \<^verbatim>\<open>false\<close> and leaves the manager as it was; from the state the constructor
  leaves, \<open>isActive\<close> is still false, \<open>currentMode\<close> still \<^verbatim>\<open>null\<close> and no element is
  selected. The table \<^verbatim>\<open>supportedTypes\<close> has no construction type for a circle.
\<close>

theorem activate_altitude_on_circle:
  assumes "sh_type c = ''circle''"
  shows "activate ''altitude'' mgr [c] = (False, mgr)
         \<and> fst (activate ''altitude'' AuxiliaryLineManager_new [c]) = False
         \<and> isActive (snd (activate ''altitude'' AuxiliaryLineManager_new [c])) = False
         \<and> currentMode (snd (activate ''altitude'' AuxiliaryLineManager_new [c])) = None
         \<and> selectedElements (snd (activate ''altitude'' AuxiliaryLineManager_new [c])) = []"
  using assms
  by (simp add: activate_def getAvailableTypes_def supportedTypes_def AuxiliaryLineManager_new_def)

theorem activate_altitude_on_circle_witness:
  "sh_type (Circle_new ''shape_1'' (Point 250 200) 80 ''circle'' None None None) = ''circle''
   \<and> activate ''altitude'' AuxiliaryLineManager_new
        [Circle_new ''shape_1'' (Point 250 200) 80 ''circle'' None None None]
       = (False, AuxiliaryLineManager_new)"
  using activate_altitude_on_circle
          [of "Circle_new ''shape_1'' (Point 250 200) 80 ''circle'' None None None"
              AuxiliaryLineManager_new]
  by (simp add: Circle_new_def Shape_new_def)

section \<open>Serialising a shape and reading it back\<close>

lemma map_add_same: "m ++ m = m"
  by (rule ext) (simp add: map_add_def split: option.split)

lemma length_Triangle_default_points: "length Triangle_default_points = 3"
  by (simp add: Triangle_default_points_def regularPolygonPoints_def)

text \<open>
  C3. The claim is that \<^verbatim>\<open>shapeFromJSON(shape.toJSON())\<close> has the vertices, the family,
  the subkind and the style of the shape. For the equilateral triangle the factory
  builds, the vertices, the family, the style (and the id) come back, but the
  subkind does not: \<^verbatim>\<open>Triangle\<close> inherits \<^verbatim>\<open>Shape.toJSON\<close>, which writes no key
  \<^verbatim>\<open>triangleType\<close>, and \<^verbatim>\<open>Triangle.fromJSON\<close> then takes its default \<^verbatim>\<open>'any'\<close>. For
  the circle the factory builds, with its control vertex dragged from
  \<open>(330, 200)\<close> to \<open>(250, 300)\<close>, the vertices do not come back either:
  \<^verbatim>\<open>Circle.toJSON\<close> writes the radius of the construction, 80, and
  \<^verbatim>\<open>Circle.fromJSON\<close> rebuilds the control vertex from it.
\<close>

theorem roundTrip_loses_triangleType:
  "roundTrip ''shape_2'' (Triangle_new ''shape_1'' None ''equilateral'' None)
     = Inr (Some ((Triangle_new ''shape_1'' None ''equilateral'' None)
                    \<lparr>sh_family := Triangle ''any''\<rparr>))
   \<and> roundTrip ''shape_2''
       ((Circle_new ''shape_1'' (Point 250 200) 80 ''circle'' None None None)
          \<lparr>sh_points := [Point 250 200, Point 250 300]\<rparr>)
     = Inr (Some ((Circle_new ''shape_1'' (Point 250 200) 80 ''circle'' None None None)
                    \<lparr>sh_points := [Point 250 200, Point 330 200]\<rparr>))"
proof -
  have "roundTrip ''shape_2'' (Triangle_new ''shape_1'' None ''equilateral'' None)
     = Inr (Some ((Triangle_new ''shape_1'' None ''equilateral'' None)
                    \<lparr>sh_family := Triangle ''any''\<rparr>))"
    by (simp add: roundTrip_def toJSON_def Shape_toJSON_def shapeFromJSON_def
          Triangle_fromJSON_def Triangle_new_def Shape_new_def orDefault_def
          length_Triangle_default_points map_add_same)
  moreover have "roundTrip ''shape_2''
       ((Circle_new ''shape_1'' (Point 250 200) 80 ''circle'' None None None)
          \<lparr>sh_points := [Point 250 200, Point 250 300]\<rparr>)
     = Inr (Some ((Circle_new ''shape_1'' (Point 250 200) 80 ''circle'' None None None)
                    \<lparr>sh_points := [Point 250 200, Point 330 200]\<rparr>))"
    by (simp add: roundTrip_def toJSON_def Shape_toJSON_def shapeFromJSON_def
          Circle_fromJSON_def Circle_new_def Shape_new_def orDefault_def map_add_same)
       (simp add: Point_def)
  ultimately show ?thesis by simp
qed

section \<open>Further properties of the equilateral solver\<close>

lemma sqrt_factor:
  assumes "x \<noteq> 0"
  shows "sqrt (x * x + y * y) = \<bar>x\<bar> * sqrt (1 + (y / x)\<^sup>2)"
proof -
  have "x * x + y * y = (x * x) * (1 + (y / x)\<^sup>2)"
    using assms by (simp add: power2_eq_square field_simps)
  then have "sqrt (x * x + y * y) = sqrt (x * x) * sqrt (1 + (y / x)\<^sup>2)"
    by (simp only: real_sqrt_mult)
  then show ?thesis by simp
qed

lemma sqrt_one_plus_pos: "0 < sqrt (1 + (t::real)\<^sup>2)"
  by (simp add: add_pos_nonneg)

lemma atan2_polar:
  assumes "x \<noteq> 0 \<or> y \<noteq> 0"
  shows "sqrt (x * x + y * y) * cos (atan2 y x) = x"
    and "sqrt (x * x + y * y) * sin (atan2 y x) = y"
proof -
  define s where "s = sqrt (1 + (y / x)\<^sup>2)"
  have s: "0 < s" unfolding s_def by (rule sqrt_one_plus_pos)
  consider "0 < x" | "x < 0" "0 \<le> y" | "x < 0" "y < 0" | "x = 0" "0 < y" | "x = 0" "y < 0"
    using assms by linarith
  then have "sqrt (x * x + y * y) * cos (atan2 y x) = x
           \<and> sqrt (x * x + y * y) * sin (atan2 y x) = y"
  proof cases
    case 1
    then have r: "sqrt (x * x + y * y) = x * s"
      using sqrt_factor [of x y] by (simp add: s_def)
    show ?thesis
      using 1 s by (simp add: atan2_def r cos_arctan sin_arctan s_def [symmetric])
  next
    case 2
    then have r: "sqrt (x * x + y * y) = - x * s"
      using sqrt_factor [of x y] by (simp add: s_def)
    show ?thesis
      using 2 s by (simp add: atan2_def r cos_arctan sin_arctan s_def [symmetric])
  next
    case 3
    then have r: "sqrt (x * x + y * y) = - x * s"
      using sqrt_factor [of x y] by (simp add: s_def)
    show ?thesis
      using 3 s by (simp add: atan2_def r cos_arctan sin_arctan s_def [symmetric])
  next
    case 4
    then show ?thesis by (simp add: atan2_def)
  next
    case 5
    then show ?thesis by (simp add: atan2_def)
  qed
  then show "sqrt (x * x + y * y) * cos (atan2 y x) = x"
    and "sqrt (x * x + y * y) * sin (atan2 y x) = y"
    by simp_all
qed


lemma equilateral_dragged_fixed:
  assumes len: "length points = 3" and idx: "idx < 3"
    and far: "\<not> distanceTo (points ! idx)
                 (midpoint (points ! ((idx + 1) mod 3)) (points ! ((idx + 2) mod 3))) < 20"
  shows "\<exists>points'. applyEquilateralConstraint idx points = Inr points'
           \<and> length points' = 3 \<and> points' ! idx = points ! idx"
proof -
  define d where "d = points ! idx"
  define m where "m = midpoint (points ! ((idx + 1) mod 3)) (points ! ((idx + 2) mod 3))"
  define ctr where "ctr = Point (px d + (px m - px d) * (2 / 3)) (py d + (py m - py d) * (2 / 3))"
  define dx where "dx = px d - px ctr"
  define dy where "dy = py d - py ctr"
  define r where "r = distanceTo d ctr"
  define t where "t = atan2 dy dx"
  define f where "f = (\<lambda>i pts.
      pts[i := Point (px ctr + r * cos (t + real ((i + 3 - idx) mod 3) * (2 * pi / 3)))
                     (py ctr + r * sin (t + real ((i + 3 - idx) mod 3) * (2 * pi / 3)))])"
  have res: "applyEquilateralConstraint idx points = Inr (fold f [0..<3] points)"
    using len idx far
    by (simp add: applyEquilateralConstraint_def Let_def d_def m_def ctr_def r_def t_def f_def
          dx_def dy_def)
  have r: "r = sqrt (dx * dx + dy * dy)"
    by (simp add: r_def distanceTo_def Let_def dx_def dy_def power2_eq_square [symmetric]
          power2_commute)
  have "20 \<le> distanceTo d m" using far by (simp add: d_def m_def)
  then have "d \<noteq> m" by (auto simp: distanceTo_def Let_def)
  then have "px d \<noteq> px m \<or> py d \<noteq> py m" by (cases d, cases m) auto
  then have nz: "dx \<noteq> 0 \<or> dy \<noteq> 0"
    by (auto simp: dx_def dy_def ctr_def Point_def)
  have here: "Point (px ctr + r * cos t) (py ctr + r * sin t) = d"
    unfolding r atan2_polar [OF nz, folded t_def]
    by (cases d) (simp add: dx_def dy_def Point_def)
  have lenf: "length (fold f [0..<3] points) = 3"
    using len by (simp add: fold_upt_3 f_def)
  from idx have "idx = 0 \<or> idx = 1 \<or> idx = 2" by arith
  then have "fold f [0..<3] points ! idx = Point (px ctr + r * cos t) (py ctr + r * sin t)"
    using len by (auto simp: fold_upt_3 f_def)
  with here res lenf show ?thesis by (simp add: d_def)
qed

text \<open>
  For every triangle and every dragged index 0..2, when the dragged vertex is
  at least 20 away from the midpoint of the opposite edge,
  \<^verbatim>\<open>_applyEquilateralConstraint\<close> returns normally, leaves the dragged vertex where it
  is, and leaves a triangle whose three sides are equal and positive and whose
  shoelace area is \<open>\<surd>3/4\<close> times the side squared (exact real arithmetic).
\<close>

theorem equilateral_restores_invariant:
  assumes len: "length points = 3" and idx: "idx < 3"
    and far: "20 \<le> distanceTo (points ! idx)
                 (midpoint (points ! ((idx + 1) mod 3)) (points ! ((idx + 2) mod 3)))"
  shows "case applyEquilateralConstraint idx points of
           Inl e \<Rightarrow> False
         | Inr points' \<Rightarrow>
             length points' = 3 \<and> points' ! idx = points ! idx
           \<and> (case getSides points' of
                 [a, b, c] \<Rightarrow> 0 < a \<and> a = b \<and> b = c \<and> polygonArea points' = sqrt 3 / 4 * a\<^sup>2
               | _ \<Rightarrow> False)"
proof -
  from far have far': "\<not> distanceTo (points ! idx)
                 (midpoint (points ! ((idx + 1) mod 3)) (points ! ((idx + 2) mod 3))) < 20"
    by simp
  from equilateral_restored [OF len idx far'] obtain points' s where
    res: "applyEquilateralConstraint idx points = Inr points'" and s: "0 < s"
    and sides: "getSides points' = [s, s, s]"
    and area: "polygonArea points' = sqrt 3 / 4 * s\<^sup>2"
    by blast
  from equilateral_dragged_fixed [OF len idx far'] res
  have "length points' = 3" and "points' ! idx = points ! idx" by simp_all
  then show ?thesis using s by (simp add: res sides area)
qed

theorem equilateral_restores_invariant_witness:
  "length [Point 0 0, Point 100 0, Point 0 100] = 3 \<and> (1::nat) < 3
   \<and> 20 \<le> distanceTo (Point 100 0) (midpoint (Point 0 100) (Point 0 0))
   \<and> (case applyEquilateralConstraint 1 [Point 0 0, Point 100 0, Point 0 100] of
         Inl e \<Rightarrow> False
       | Inr points' \<Rightarrow>
           length points' = 3 \<and> points' ! 1 = [Point 0 0, Point 100 0, Point 0 100] ! 1
         \<and> (case getSides points' of
               [a, b, c] \<Rightarrow> 0 < a \<and> a = b \<and> b = c \<and> polygonArea points' = sqrt 3 / 4 * a\<^sup>2
             | _ \<Rightarrow> False))"
proof -
  have m: "midpoint (Point 0 100) (Point 0 0) = Point 0 50"
    by (simp add: midpoint_def Point_def)
  have d: "distanceTo (Point 100 0) (Point 0 50) = sqrt 12500"
    by (simp add: distanceTo_def Point_def Let_def)
  have far: "20 \<le> distanceTo (Point 100 0) (midpoint (Point 0 100) (Point 0 0))"
    unfolding m d by (rule real_le_rsqrt) simp
  show ?thesis
    using equilateral_restores_invariant [of "[Point 0 0, Point 100 0, Point 0 100]" 1] far
    by simp
qed

text \<open>
  When the dragged vertex is closer than 20 to the midpoint of the opposite
  edge, \<^verbatim>\<open>_applyEquilateralConstraint\<close> returns without a write.
\<close>

theorem equilateral_rejects_collapse:
  assumes "length points = 3" and "idx < 3"
    and "distanceTo (points ! idx)
           (midpoint (points ! ((idx + 1) mod 3)) (points ! ((idx + 2) mod 3))) < 20"
  shows "applyEquilateralConstraint idx points = Inr points"
  using assms by (simp add: applyEquilateralConstraint_def Let_def)

theorem equilateral_rejects_collapse_witness:
  "length [Point 0 0, Point 10 0, Point 0 10] = 3 \<and> (0::nat) < 3
   \<and> distanceTo (Point 0 0) (midpoint (Point 10 0) (Point 0 10)) < 20
   \<and> applyEquilateralConstraint 0 [Point 0 0, Point 10 0, Point 0 10]
       = Inr [Point 0 0, Point 10 0, Point 0 10]"
proof -
  have m: "midpoint (Point 10 0) (Point 0 10) = Point 5 5"
    by (simp add: midpoint_def Point_def)
  have d: "distanceTo (Point 0 0) (Point 5 5) = sqrt 50"
    by (simp add: distanceTo_def Point_def Let_def)
  have near: "distanceTo (Point 0 0) (midpoint (Point 10 0) (Point 0 10)) < 20"
    unfolding m d by (rule real_less_lsqrt) simp_all
  show ?thesis
    using equilateral_rejects_collapse [of "[Point 0 0, Point 10 0, Point 0 10]" 0] near
    by simp
qed

section \<open>Two constructions on a triangle\<close>

text \<open>
  On the triangle \<open>A(0,0), B(4,0), C(0,3)\<close> the median from \<open>C\<close> ends at the
  midpoint \<open>(2, 0)\<close> of \<open>A\<close> and \<open>B\<close>.
\<close>

theorem median_scenario:
  "getEndpoints \<lparr>aux_type = ''median'', aux_params = someParams\<lparr>vertexIndex := stored 2\<rparr>\<rparr>
     (Some [Point 0 0, Point 4 0, Point 0 3])
   = Inr (Endpoints \<lparr>ep_start = Some (Point 0 3), ep_end = Some (Point 2 0),
                       ep_marks = [(''midpoint'', Point 2 0)],
                       ep_isRightAngle = False, ep_type = ''segment''\<rparr>)"
  by (simp add: getEndpoints_def getMedianEndpoints_def someParams_def Let_def stored_def
        plusNumber_def elemAt_def midpointOf_def midpoint_def Point_def)

text \<open>
  The perpendicular bisector of the edge \<open>A(0,0)\<close> to \<open>B(4,0)\<close> is the vertical
  line through \<open>(2, 0)\<close>, drawn from \<open>(2, -300)\<close> to \<open>(2, 300)\<close>.
\<close>

theorem perpendicular_bisector_scenario:
  "getEndpoints \<lparr>aux_type = ''perpendicular-bisector'', aux_params = someParams\<lparr>edgeIndex := stored 0\<rparr>\<rparr>
     (Some [Point 0 0, Point 4 0, Point 0 3])
   = Inr (Endpoints \<lparr>ep_start = Some (Point 2 (- 300)), ep_end = Some (Point 2 300),
                       ep_marks = [(''midpoint'', Point 2 0)],
                       ep_isRightAngle = True, ep_type = ''line''\<rparr>)"
  by (simp add: getEndpoints_def getPerpendicularBisectorEndpoints_def someParams_def Let_def
        stored_def plusNumber_def elemAt_def midpoint_def Point_def)

section \<open>What a round trip through JSON keeps\<close>

lemma style_twice: "defaultStyle ++ (defaultStyle ++ st) = defaultStyle ++ st"
  by (simp add: map_add_assoc [symmetric] map_add_same)

lemma length_createDefaultPoints: "length (createDefaultPoints t cx cy sz) = 4"
  by (simp add: createDefaultPoints_def)

text \<open>
  \<^verbatim>\<open>shapeFromJSON(shape.toJSON())\<close> on every shape the constructors of
  \<^verbatim>\<open>Triangle\<close>, \<^verbatim>\<open>Quadrilateral\<close>, \<^verbatim>\<open>Line2D\<close> and \<^verbatim>\<open>Polygon\<close> build (the
  polygon from an array of vertices): the id, the type, the vertices and the style
  come back; a polygon comes back whole; a triangle and a quadrilateral come back
  with the subkind \<^verbatim>\<open>'any'\<close> and a line with \<^verbatim>\<open>'segment'\<close>, whatever they had.
\<close>

theorem roundTrip_polygonal:
  "roundTrip newId (Triangle_new oldId pts triangleType optStyle)
     = Inr (Some ((Triangle_new oldId pts triangleType optStyle)\<lparr>sh_family := Triangle ''any''\<rparr>))
   \<and> roundTrip newId (Quadrilateral_new oldId pts quadType optStyle)
     = Inr (Some ((Quadrilateral_new oldId pts quadType optStyle)
                    \<lparr>sh_family := Quadrilateral ''any''\<rparr>))
   \<and> roundTrip newId (Line2D_new oldId p1 p2 lineType optStyle)
     = Inr (Some ((Line2D_new oldId p1 p2 lineType optStyle)\<lparr>sh_family := Line2D ''segment''\<rparr>))
   \<and> roundTrip newId (Polygon_new oldId ps optSides optStyle optRegular)
     = Inr (Some (Polygon_new oldId ps optSides optStyle optRegular))"
proof -
  have t: "roundTrip newId (Triangle_new oldId pts triangleType optStyle)
     = Inr (Some ((Triangle_new oldId pts triangleType optStyle)\<lparr>sh_family := Triangle ''any''\<rparr>))"
    by (cases pts; cases optStyle)
       (simp_all add: roundTrip_def toJSON_def Shape_toJSON_def shapeFromJSON_def
          Triangle_fromJSON_def Triangle_new_def Shape_new_def orDefault_def
          length_Triangle_default_points map_add_same style_twice)
  have q: "roundTrip newId (Quadrilateral_new oldId pts quadType optStyle)
     = Inr (Some ((Quadrilateral_new oldId pts quadType optStyle)
                    \<lparr>sh_family := Quadrilateral ''any''\<rparr>))"
    by (cases pts; cases optStyle)
       (simp_all add: roundTrip_def toJSON_def Shape_toJSON_def shapeFromJSON_def
          Quadrilateral_fromJSON_def Quadrilateral_new_def Shape_new_def orDefault_def
          length_createDefaultPoints map_add_same style_twice)
  have l: "roundTrip newId (Line2D_new oldId p1 p2 lineType optStyle)
     = Inr (Some ((Line2D_new oldId p1 p2 lineType optStyle)\<lparr>sh_family := Line2D ''segment''\<rparr>))"
    by (cases optStyle)
       (simp_all add: roundTrip_def toJSON_def Shape_toJSON_def shapeFromJSON_def
          Line2D_fromJSON_def Line2D_new_def Shape_new_def orDefault_def
          map_add_same style_twice)
  have p: "roundTrip newId (Polygon_new oldId ps optSides optStyle optRegular)
     = Inr (Some (Polygon_new oldId ps optSides optStyle optRegular))"
    by (cases optStyle; cases optRegular; cases optSides)
       (simp_all add: roundTrip_def toJSON_def Shape_toJSON_def shapeFromJSON_def
          Polygon_fromJSON_def Polygon_new_def Shape_new_def Let_def regularPolygonPoints_def
          map_add_same style_twice)
  from t q l p show ?thesis by simp
qed

end
